theory Spec2Isabelle
  imports Main "HOL-Library.Word"
begin

section \<open>JavaScript values\<close>

text \<open>
  The values that flow through \<^verbatim>\<open>payment_integration_example.js\<close>: tokens, option
  bundles, header objects and parsed JSON bodies. A string is a list of characters (code
  units up to 255). An object is a plain object, given by the list of its own enumerable
  properties (distinct keys); an array is given by its elements. No value is callable.
  A Number is modelled where it is an integer of magnitude below \<open>2 ^ 53\<close>, which a
  double holds exactly and JavaScript prints in plain decimal: the 54-bit signed words.
\<close>

datatype jsval =
    JUndefined
  | JNull
  | JBool bool
  | JNum "54 word"
  | JStr string
  | JArr "jsval list"
  | JObj "(string \<times> jsval) list"

type_synonym jsobj = "(string \<times> jsval) list"

datatype js_error =
    Error string
  | TypeError
  | SyntaxError
  | FetchFailed

text \<open>Decimal rendering of an integer, as \<^verbatim>\<open>Number.prototype.toString\<close> gives it.\<close>

definition digit_char :: "nat \<Rightarrow> char" where
  "digit_char d = ''0123456789'' ! d"

function show_nat :: "nat \<Rightarrow> string" where
  "show_nat n = (if n < 10 then [digit_char n] else show_nat (n div 10) @ [digit_char (n mod 10)])"
  by pat_completeness auto
termination
  by (relation "measure id") auto

declare show_nat.simps [simp del]

definition show_int :: "int \<Rightarrow> string" where
  "show_int i = (if i < 0 then CHR ''-'' # show_nat (nat (- i)) else show_nat (nat i))"

text \<open>Reading a decimal numeral back: the number that a string of digits denotes.\<close>

definition digit_value :: "char \<Rightarrow> nat" where
  "digit_value c = of_char c - 48"

definition read_nat :: "string \<Rightarrow> nat" where
  "read_nat s = foldl (\<lambda>a c. 10 * a + digit_value c) 0 s"

text \<open>\<^verbatim>\<open>Array.prototype.join\<close> with a separator.\<close>

fun join :: "string \<Rightarrow> string list \<Rightarrow> string" where
  "join sep [] = []"
| "join sep [x] = x"
| "join sep (x # y # ys) = x @ sep @ join sep (y # ys)"

text \<open>The results of a sequence of conversions, or the first error among them.\<close>

fun collect :: "('e + 'a) list \<Rightarrow> 'e + 'a list" where
  "collect [] = Inr []"
| "collect (x # xs) =
     (case x of
        Inl e \<Rightarrow> Inl e
      | Inr v \<Rightarrow> (case collect xs of Inl e \<Rightarrow> Inl e | Inr vs \<Rightarrow> Inr (v # vs)))"

text \<open>
  ToString, the conversion that a template literal \<^verbatim>\<open>`${v}`\<close> applies. A primitive has
  its text. An array joins the conversions of its elements with a comma, \<^verbatim>\<open>null\<close> and
  \<^verbatim>\<open>undefined\<close> elements giving the empty string. A plain object gives
  \<^verbatim>\<open>[object Object]\<close> through \<^verbatim>\<open>Object.prototype.toString\<close>, unless it has an own
  \<^verbatim>\<open>toString\<close> property: that one is found first, it is not callable, the inherited
  \<^verbatim>\<open>valueOf\<close> (or an own one, not callable either) yields no primitive, and the
  conversion throws a TypeError.
\<close>

fun to_string :: "jsval \<Rightarrow> js_error + string" where
  "to_string JUndefined = Inr ''undefined''"
| "to_string JNull = Inr ''null''"
| "to_string (JBool b) = Inr (if b then ''true'' else ''false'')"
| "to_string (JNum w) = Inr (show_int (sint w))"
| "to_string (JStr s) = Inr s"
| "to_string (JArr xs) =
     (case collect (map (\<lambda>x. case x of JUndefined \<Rightarrow> Inr [] | JNull \<Rightarrow> Inr [] | _ \<Rightarrow> to_string x) xs) of
        Inl e \<Rightarrow> Inl e
      | Inr texts \<Rightarrow> Inr (join '','' texts))"
| "to_string (JObj kvs) =
     (if ''toString'' \<in> fst ` set kvs then Inl TypeError else Inr ''[object Object]'')"

text \<open>ToBoolean, the test of \<^verbatim>\<open>if (v)\<close>.\<close>

fun truthy :: "jsval \<Rightarrow> bool" where
  "truthy JUndefined = False"
| "truthy JNull = False"
| "truthy (JBool b) = b"
| "truthy (JNum w) = (w \<noteq> 0)"
| "truthy (JStr s) = (s \<noteq> [])"
| "truthy (JArr xs) = True"
| "truthy (JObj kvs) = True"

subsection \<open>Objects\<close>

definition obj_get :: "jsobj \<Rightarrow> string \<Rightarrow> jsval option" where
  "obj_get obj k = map_of obj k"

text \<open>
  Assignment \<^verbatim>\<open>obj[k] = v\<close>: an existing property keeps its place and takes the new
  value, a new property is added at the end.
\<close>

fun obj_set :: "jsobj \<Rightarrow> string \<Rightarrow> jsval \<Rightarrow> jsobj" where
  "obj_set [] k v = [(k, v)]"
| "obj_set ((k', v') # rest) k v =
     (if k' = k then (k, v) # rest else (k', v') # obj_set rest k v)"

text \<open>Copying properties into an object under construction, in order, later ones winning.\<close>

fun obj_assign :: "jsobj \<Rightarrow> jsobj \<Rightarrow> jsobj" where
  "obj_assign obj [] = obj"
| "obj_assign obj ((k, v) # rest) = obj_assign (obj_set obj k v) rest"

text \<open>
  The own enumerable properties that a spread \<^verbatim>\<open>...v\<close> inside an object literal copies:
  those of an object, the indexed elements of an array or characters of a string, none
  for \<^verbatim>\<open>undefined\<close>, \<^verbatim>\<open>null\<close>, booleans and numbers.
\<close>

fun own_props :: "jsval \<Rightarrow> jsobj" where
  "own_props (JObj kvs) = kvs"
| "own_props (JArr xs) = map (\<lambda>i. (show_nat i, xs ! i)) [0 ..< length xs]"
| "own_props (JStr s) = map (\<lambda>i. (show_nat i, JStr [s ! i])) [0 ..< length s]"
| "own_props _ = []"

text \<open>
  Reading a property \<^verbatim>\<open>v.k\<close> by one of the names this program reads (\<^verbatim>\<open>success\<close>,
  \<^verbatim>\<open>checkout_url\<close>, \<^verbatim>\<open>session_id\<close>, \<^verbatim>\<open>total_credits\<close>, \<^verbatim>\<open>tier\<close>, \<^verbatim>\<open>credits\<close>,
  \<^verbatim>\<open>headers\<close>; no prototype has them): \<^verbatim>\<open>undefined\<close> when absent, a TypeError on
  \<^verbatim>\<open>null\<close> and \<^verbatim>\<open>undefined\<close>.
\<close>

fun get_prop :: "jsval \<Rightarrow> string \<Rightarrow> js_error + jsval" where
  "get_prop JUndefined k = Inl TypeError"
| "get_prop JNull k = Inl TypeError"
| "get_prop (JObj kvs) k = (case obj_get kvs k of None \<Rightarrow> Inr JUndefined | Some v \<Rightarrow> Inr v)"
| "get_prop _ k = Inr JUndefined"

section \<open>The browser around the program\<close>

text \<open>
  A response as \<^verbatim>\<open>fetch\<close> resolves it: its status code, and what \<^verbatim>\<open>response.json()\<close>
  yields for its body, the JSON value the body text denotes or nothing when the text is
  not JSON. \<^verbatim>\<open>response.ok\<close> is the Fetch API's flag, true for a status from 200 to 299.
\<close>

record response =
  status :: nat
  json_body :: "jsval option"

definition ok :: "response \<Rightarrow> bool" where
  "ok r = (200 \<le> status r \<and> status r \<le> 299)"

datatype fetch_outcome = NetworkFailure | Responded response

text \<open>A call of \<^verbatim>\<open>fetch\<close>: its two arguments.\<close>

type_synonym request = "string \<times> jsobj"

text \<open>
  The network and the server behind it: the outcome of a \<^verbatim>\<open>fetch\<close> call, which may depend
  on the calls made before it. \<^verbatim>\<open>NetworkFailure\<close> stands for every rejection of \<^verbatim>\<open>fetch\<close>
  itself, a request it refuses to build included.
\<close>

type_synonym network = "request list \<Rightarrow> request \<Rightarrow> fetch_outcome"

datatype console_arg = Val jsval | Err js_error

datatype console_entry = ConsoleLog "console_arg list" | ConsoleError "console_arg list"

record PaymentService =
  apiBaseUrl :: string
  authToken :: jsval

text \<open>
  What the program can change or observe: the global \<^verbatim>\<open>paymentService\<close>, the calls of
  \<^verbatim>\<open>fetch\<close> so far, the number of \<^verbatim>\<open>response.json()\<close> calls, local storage, the query
  parameters of the page's URL, the \<^verbatim>\<open>window.open\<close> calls that went through, with their
  arguments, the alerts shown and the console.
\<close>

record browser =
  paymentService :: PaymentService
  requests :: "request list"
  json_calls :: nat
  localStorage :: "(string \<times> string) list"
  location_search :: "(string \<times> string) list"
  opened :: "(jsval \<times> string) list"
  alerts :: "string list"
  console :: "console_entry list"

section \<open>PaymentService\<close>

definition constructor :: "string option \<Rightarrow> jsval option \<Rightarrow> PaymentService" where
  "constructor url tok =
     \<lparr> apiBaseUrl = (case url of None \<Rightarrow> ''http://localhost:8000'' | Some u \<Rightarrow> u),
       authToken = (case tok of None \<Rightarrow> JNull | Some JUndefined \<Rightarrow> JNull | Some t \<Rightarrow> t) \<rparr>"

definition setAuthToken :: "jsval \<Rightarrow> PaymentService \<Rightarrow> PaymentService" where
  "setAuthToken token s = s\<lparr> authToken := token \<rparr>"

text \<open>
  The header object of lines 15 to 22, or the TypeError that the template literal of
  line 21 throws for a token without a string conversion. \<open>options_headers\<close> is the value
  of the expression \<^verbatim>\<open>options.headers\<close>, \<open>extra_headers\<close> the properties its spread
  copies, \<open>initial_headers\<close> the object literal of lines 15 to 18.
\<close>

definition options_headers :: "jsobj \<Rightarrow> jsval" where
  "options_headers options = (case obj_get options ''headers'' of None \<Rightarrow> JUndefined | Some h \<Rightarrow> h)"

definition extra_headers :: "jsobj \<Rightarrow> jsobj" where
  "extra_headers options = own_props (options_headers options)"

definition initial_headers :: "jsobj \<Rightarrow> jsobj" where
  "initial_headers options =
     obj_assign [(''Content-Type'', JStr ''application/json'')] (extra_headers options)"

definition request_headers :: "PaymentService \<Rightarrow> jsobj \<Rightarrow> js_error + jsobj" where
  "request_headers s options =
     (let headers = initial_headers options
      in if truthy (authToken s)
         then (case to_string (authToken s) of
                 Inl e \<Rightarrow> Inl e
               | Inr text \<Rightarrow> Inr (obj_set headers ''Authorization'' (JStr (''Bearer '' @ text))))
         else Inr headers)"

text \<open>The arguments of the \<^verbatim>\<open>fetch\<close> call of lines 24 to 27, when line 21 has not thrown.\<close>

definition outgoing :: "PaymentService \<Rightarrow> string \<Rightarrow> jsobj \<Rightarrow> js_error + request" where
  "outgoing s url options =
     (case request_headers s options of
        Inl e \<Rightarrow> Inl e
      | Inr headers \<Rightarrow>
          Inr (apiBaseUrl s @ url, obj_set (obj_assign [] options) ''headers'' (JObj headers)))"

definition makeAuthenticatedRequest ::
  "network \<Rightarrow> PaymentService \<Rightarrow> string \<Rightarrow> jsobj \<Rightarrow> browser \<Rightarrow> (js_error + jsval) \<times> browser" where
  "makeAuthenticatedRequest net s url options b =
     (case outgoing s url options of
        Inl e \<Rightarrow> (Inl e, b)
      | Inr req \<Rightarrow>
          let b1 = b\<lparr> requests := requests b @ [req] \<rparr>
          in case net (requests b) req of
               NetworkFailure \<Rightarrow> (Inl FetchFailed, b1)
             | Responded r \<Rightarrow>
                 if \<not> ok r then (Inl (Error (''HTTP error! status: '' @ show_nat (status r))), b1)
                 else let b2 = b1\<lparr> json_calls := json_calls b1 + 1 \<rparr>
                      in (case json_body r of None \<Rightarrow> (Inl SyntaxError, b2) | Some v \<Rightarrow> (Inr v, b2)))"

subsection \<open>The headers that fetch sends\<close>

text \<open>
  What the Fetch standard makes of the header object it is given. Each property, in
  order, is appended to the request's header list: the value is converted to a string
  and stripped of leading and trailing HTTP whitespace (tab, line feed, carriage return,
  space); a name that is not a token, or a value that still holds a NUL, a line feed or
  a carriage return, makes \<^verbatim>\<open>fetch\<close> reject with a TypeError, and nothing is sent. The
  request's header under a name, as \<^verbatim>\<open>Headers.get\<close> reads it and as it goes out, is the
  values of all entries whose names match it without regard to case, joined by a comma
  and a space. Two things are left out: an entry with a forbidden header name would be
  dropped (\<^verbatim>\<open>Authorization\<close> and \<^verbatim>\<open>Content-Type\<close> are not forbidden), and the browser adds
  headers of its own, such as \<^verbatim>\<open>User-Agent\<close>, to what the program asked for.
\<close>

definition http_ws :: "char \<Rightarrow> bool" where
  "http_ws c = (c = CHR 0x09 \<or> c = CHR 0x0A \<or> c = CHR 0x0D \<or> c = CHR 0x20)"

definition normalize_value :: "string \<Rightarrow> string" where
  "normalize_value s = rev (dropWhile http_ws (rev (dropWhile http_ws s)))"

definition header_value_ok :: "string \<Rightarrow> bool" where
  "header_value_ok s = (\<not> list_ex (\<lambda>c. c = CHR 0x00 \<or> c = CHR 0x0A \<or> c = CHR 0x0D) s)"

definition tchar :: "char \<Rightarrow> bool" where
  "tchar c = (c \<in> set (''!#$%&*+-.^_`|~0123456789''
                        @ ''abcdefghijklmnopqrstuvwxyz'' @ ''ABCDEFGHIJKLMNOPQRSTUVWXYZ'')
              \<or> c = CHR 0x27)"

definition header_name_ok :: "string \<Rightarrow> bool" where
  "header_name_ok k = (k \<noteq> [] \<and> list_all tchar k)"

definition lower_char :: "char \<Rightarrow> char" where
  "lower_char c =
     (case map_of (zip ''ABCDEFGHIJKLMNOPQRSTUVWXYZ'' ''abcdefghijklmnopqrstuvwxyz'') c of
        None \<Rightarrow> c | Some l \<Rightarrow> l)"

definition same_header :: "string \<Rightarrow> string \<Rightarrow> bool" where
  "same_header k name = (map lower_char k = map lower_char name)"

fun header_list :: "jsobj \<Rightarrow> js_error + (string \<times> string) list" where
  "header_list [] = Inr []"
| "header_list ((k, v) # rest) =
     (case to_string v of
        Inl e \<Rightarrow> Inl e
      | Inr text \<Rightarrow>
          if header_name_ok k \<and> header_value_ok (normalize_value text)
          then (case header_list rest of
                  Inl e \<Rightarrow> Inl e
                | Inr hl \<Rightarrow> Inr ((k, normalize_value text) # hl))
          else Inl TypeError)"

definition header_values :: "(string \<times> string) list \<Rightarrow> string \<Rightarrow> string list" where
  "header_values hl name = map snd (filter (\<lambda>kv. same_header (fst kv) name) hl)"

definition header_get :: "(string \<times> string) list \<Rightarrow> string \<Rightarrow> string option" where
  "header_get hl name =
     (if header_values hl name = [] then None else Some (join '', '' (header_values hl name)))"

text \<open>
  The header that the request has under a name, for a given header object: nothing is
  sent (\<open>Inl\<close>) when \<^verbatim>\<open>fetch\<close> rejects the object, no such header (\<open>None\<close>), or its
  value.
\<close>

definition sent_header :: "jsobj \<Rightarrow> string \<Rightarrow> js_error + string option" where
  "sent_header headers name =
     (case header_list headers of Inl e \<Rightarrow> Inl e | Inr hl \<Rightarrow> Inr (header_get hl name))"

subsection \<open>JSON.stringify\<close>

text \<open>
  The serialisation of ECMAScript's \<^verbatim>\<open>JSON.stringify\<close>, with no replacer and no
  indentation. A string is quoted with its escapes; \<^verbatim>\<open>undefined\<close> has no serialisation
  (the result \<^verbatim>\<open>None\<close>), is left out of an object and is \<^verbatim>\<open>null\<close> in an array. No value
  of the model is callable, so a \<^verbatim>\<open>toJSON\<close> property is data like any other.
\<close>

definition hex_char :: "nat \<Rightarrow> char" where
  "hex_char d = ''0123456789abcdef'' ! d"

definition quote_char :: "char \<Rightarrow> string" where
  "quote_char c =
     (if c = CHR 0x22 then [CHR 0x5C, CHR 0x22]
      else if c = CHR 0x5C then [CHR 0x5C, CHR 0x5C]
      else if c = CHR 0x08 then [CHR 0x5C, CHR ''b'']
      else if c = CHR 0x09 then [CHR 0x5C, CHR ''t'']
      else if c = CHR 0x0A then [CHR 0x5C, CHR ''n'']
      else if c = CHR 0x0C then [CHR 0x5C, CHR ''f'']
      else if c = CHR 0x0D then [CHR 0x5C, CHR ''r'']
      else if (of_char c :: nat) < 32
        then [CHR 0x5C, CHR ''u'', CHR ''0'', CHR ''0'',
              hex_char (of_char c div 16), hex_char (of_char c mod 16)]
      else [c])"

definition quote :: "string \<Rightarrow> string" where
  "quote s = [CHR 0x22] @ concat (map quote_char s) @ [CHR 0x22]"

fun JSON_stringify :: "jsval \<Rightarrow> string option" where
  "JSON_stringify JUndefined = None"
| "JSON_stringify JNull = Some ''null''"
| "JSON_stringify (JBool b) = Some (if b then ''true'' else ''false'')"
| "JSON_stringify (JNum w) = Some (show_int (sint w))"
| "JSON_stringify (JStr s) = Some (quote s)"
| "JSON_stringify (JArr xs) =
     Some (''['' @ join '',''
             (map (\<lambda>x. case JSON_stringify x of None \<Rightarrow> ''null'' | Some t \<Rightarrow> t) xs) @ '']'')"
| "JSON_stringify (JObj kvs) =
     Some (''{'' @ join '',''
             (concat (map (\<lambda>kv. case JSON_stringify (snd kv) of
                                   None \<Rightarrow> []
                                 | Some t \<Rightarrow> [quote (fst kv) @ '':'' @ t]) kvs)) @ ''}'')"

text \<open>The value of the expression \<^verbatim>\<open>JSON.stringify(v)\<close>.\<close>

definition stringify_value :: "jsval \<Rightarrow> jsval" where
  "stringify_value v = (case JSON_stringify v of None \<Rightarrow> JUndefined | Some t \<Rightarrow> JStr t)"

subsection \<open>The convenience methods\<close>

definition getPricingPlans ::
  "network \<Rightarrow> PaymentService \<Rightarrow> browser \<Rightarrow> (js_error + jsval) \<times> browser" where
  "getPricingPlans net s b = makeAuthenticatedRequest net s ''/pricing/plans'' [] b"

definition createSubscription ::
  "network \<Rightarrow> PaymentService \<Rightarrow> jsval \<Rightarrow> browser \<Rightarrow> (js_error + jsval) \<times> browser" where
  "createSubscription net s plan b =
     makeAuthenticatedRequest net s ''/subscriptions/create''
       [(''method'', JStr ''POST''), (''body'', stringify_value (JObj [(''plan'', plan)]))] b"

definition purchaseCredits ::
  "network \<Rightarrow> PaymentService \<Rightarrow> jsval \<Rightarrow> browser \<Rightarrow> (js_error + jsval) \<times> browser" where
  "purchaseCredits net s amount b =
     makeAuthenticatedRequest net s ''/credits/purchase''
       [(''method'', JStr ''POST''), (''body'', stringify_value (JObj [(''amount'', amount)]))] b"

definition getSubscriptionStatus ::
  "network \<Rightarrow> PaymentService \<Rightarrow> browser \<Rightarrow> (js_error + jsval) \<times> browser" where
  "getSubscriptionStatus net s b = makeAuthenticatedRequest net s ''/subscriptions/status'' [] b"

definition getUserAnalytics ::
  "network \<Rightarrow> PaymentService \<Rightarrow> jsval option \<Rightarrow> browser \<Rightarrow> (js_error + jsval) \<times> browser" where
  "getUserAnalytics net s days b =
     (case to_string (case days of None \<Rightarrow> JNum 30 | Some JUndefined \<Rightarrow> JNum 30 | Some d \<Rightarrow> d) of
        Inl e \<Rightarrow> (Inl e, b)
      | Inr text \<Rightarrow> makeAuthenticatedRequest net s (''/users/analytics?days='' @ text) [] b)"

section \<open>The example handlers\<close>

text \<open>
  The browser's own operations, as the handlers call them. \<^verbatim>\<open>window.open\<close> converts its
  URL argument to a string, \<^verbatim>\<open>undefined\<close> standing for the default; a value without a
  string conversion makes the call throw. The URL is taken to be one that the browser
  can parse.
\<close>

definition window_open :: "jsval \<Rightarrow> string \<Rightarrow> browser \<Rightarrow> js_error + browser" where
  "window_open url target b =
     (case (if url = JUndefined then Inr [] else to_string url) of
        Inl e \<Rightarrow> Inl e
      | Inr text \<Rightarrow> Inr (b\<lparr> opened := opened b @ [(url, target)] \<rparr>))"

definition alert :: "string \<Rightarrow> browser \<Rightarrow> browser" where
  "alert msg b = b\<lparr> alerts := alerts b @ [msg] \<rparr>"

definition console_log :: "console_arg list \<Rightarrow> browser \<Rightarrow> browser" where
  "console_log args b = b\<lparr> console := console b @ [ConsoleLog args] \<rparr>"

definition console_error :: "console_arg list \<Rightarrow> browser \<Rightarrow> browser" where
  "console_error args b = b\<lparr> console := console b @ [ConsoleError args] \<rparr>"

fun storage_set :: "(string \<times> string) list \<Rightarrow> string \<Rightarrow> string \<Rightarrow> (string \<times> string) list" where
  "storage_set [] k v = [(k, v)]"
| "storage_set ((k', v') # rest) k v =
     (if k' = k then (k, v) # rest else (k', v') # storage_set rest k v)"

text \<open>
  \<^verbatim>\<open>localStorage.setItem(k, v)\<close> stores the string conversion of \<open>v\<close>, and throws when
  there is none.
\<close>

definition localStorage_setItem :: "string \<Rightarrow> jsval \<Rightarrow> browser \<Rightarrow> js_error + browser" where
  "localStorage_setItem k v b =
     (case to_string v of
        Inl e \<Rightarrow> Inl e
      | Inr text \<Rightarrow> Inr (b\<lparr> localStorage := storage_set (localStorage b) k text \<rparr>))"

definition localStorage_getItem :: "browser \<Rightarrow> string \<Rightarrow> string option" where
  "localStorage_getItem b k = map_of (localStorage b) k"

definition localStorage_removeItem :: "string \<Rightarrow> browser \<Rightarrow> browser" where
  "localStorage_removeItem k b = b\<lparr> localStorage := filter (\<lambda>kv. fst kv \<noteq> k) (localStorage b) \<rparr>"

text \<open>\<^verbatim>\<open>new URLSearchParams(window.location.search).get(name)\<close>: the first value, or null.\<close>

definition urlParams_get :: "browser \<Rightarrow> string \<Rightarrow> jsval" where
  "urlParams_get b name = (case map_of (location_search b) name of None \<Rightarrow> JNull | Some v \<Rightarrow> JStr v)"

text \<open>
  The statements inside \<^verbatim>\<open>if (response.success)\<close> of \<^verbatim>\<open>handleSubscriptionPurchase\<close>, lines
  82 to 85: the error thrown, if any, and the browser left.
\<close>

definition subscription_checkout :: "jsval \<Rightarrow> browser \<Rightarrow> js_error option \<times> browser" where
  "subscription_checkout response b =
     (case get_prop response ''checkout_url'' of
        Inl e \<Rightarrow> (Some e, b)
      | Inr checkout_url \<Rightarrow>
          (case window_open checkout_url ''_blank'' b of
             Inl e \<Rightarrow> (Some e, b)
           | Inr b1 \<Rightarrow>
               (case get_prop response ''session_id'' of
                  Inl e \<Rightarrow> (Some e, b1)
                | Inr session_id \<Rightarrow>
                    (case localStorage_setItem ''stripe_session_id'' session_id b1 of
                       Inl e \<Rightarrow> (Some e, b1)
                     | Inr b2 \<Rightarrow> (None, b2)))))"

text \<open>The body of the \<^verbatim>\<open>try\<close> block of \<^verbatim>\<open>handleSubscriptionPurchase\<close>.\<close>

definition subscription_try :: "network \<Rightarrow> jsval \<Rightarrow> browser \<Rightarrow> js_error option \<times> browser" where
  "subscription_try net plan b =
     (case createSubscription net (paymentService b) plan b of
        (Inl e, b1) \<Rightarrow> (Some e, b1)
      | (Inr response, b1) \<Rightarrow>
          (case get_prop response ''success'' of
             Inl e \<Rightarrow> (Some e, b1)
           | Inr success \<Rightarrow>
               if truthy success then subscription_checkout response b1 else (None, b1)))"

definition handleSubscriptionPurchase :: "network \<Rightarrow> jsval \<Rightarrow> browser \<Rightarrow> browser" where
  "handleSubscriptionPurchase net plan b =
     (case subscription_try net plan b of
        (None, b1) \<Rightarrow> b1
      | (Some error, b1) \<Rightarrow>
          alert ''Failed to create subscription checkout. Please try again.''
            (console_error [Val (JStr ''Subscription purchase failed:''), Err error] b1))"

text \<open>
  The statements inside \<^verbatim>\<open>if (response.success)\<close> of \<^verbatim>\<open>handleCreditPurchase\<close>, lines 100
  to 106.
\<close>

definition credit_checkout :: "jsval \<Rightarrow> browser \<Rightarrow> js_error option \<times> browser" where
  "credit_checkout response b =
     (case get_prop response ''checkout_url'' of
        Inl e \<Rightarrow> (Some e, b)
      | Inr checkout_url \<Rightarrow>
          (case window_open checkout_url ''_blank'' b of
             Inl e \<Rightarrow> (Some e, b)
           | Inr b1 \<Rightarrow>
               (case get_prop response ''total_credits'' of
                  Inl e \<Rightarrow> (Some e, b1)
                | Inr total_credits \<Rightarrow>
                    (case to_string total_credits of
                       Inl e \<Rightarrow> (Some e, b1)
                     | Inr text \<Rightarrow>
                         let b2 = alert (''You'' @ [CHR 0x27] @ ''ll receive '' @ text
                                          @ '' credits after payment!'') b1
                         in (case get_prop response ''session_id'' of
                               Inl e \<Rightarrow> (Some e, b2)
                             | Inr session_id \<Rightarrow>
                                 (case localStorage_setItem ''stripe_session_id'' session_id b2 of
                                    Inl e \<Rightarrow> (Some e, b2)
                                  | Inr b3 \<Rightarrow> (None, b3)))))))"

definition credit_try :: "network \<Rightarrow> jsval \<Rightarrow> browser \<Rightarrow> js_error option \<times> browser" where
  "credit_try net amount b =
     (case purchaseCredits net (paymentService b) amount b of
        (Inl e, b1) \<Rightarrow> (Some e, b1)
      | (Inr response, b1) \<Rightarrow>
          (case get_prop response ''success'' of
             Inl e \<Rightarrow> (Some e, b1)
           | Inr success \<Rightarrow>
               if truthy success then credit_checkout response b1 else (None, b1)))"

definition handleCreditPurchase :: "network \<Rightarrow> jsval \<Rightarrow> browser \<Rightarrow> browser" where
  "handleCreditPurchase net amount b =
     (case credit_try net amount b of
        (None, b1) \<Rightarrow> b1
      | (Some error, b1) \<Rightarrow>
          alert ''Failed to create credit purchase checkout. Please try again.''
            (console_error [Val (JStr ''Credit purchase failed:''), Err error] b1))"

text \<open>
  \<^verbatim>\<open>updateUserInterface\<close>: the error it throws, if any, and the browser it leaves. Each of
  the two template literals, lines 171 and 172, throws for a value without a string
  conversion.
\<close>

definition show_status :: "jsval \<Rightarrow> jsval \<Rightarrow> browser \<Rightarrow> js_error option \<times> browser" where
  "show_status tier credits b =
     (case to_string tier of
        Inl e \<Rightarrow> (Some e, b)
      | Inr tier_text \<Rightarrow>
          let b1 = console_log [Val (JStr (''User tier: '' @ tier_text))] b
          in (case (if credits = JNum (- 1) then Inr ''Unlimited'' else to_string credits) of
                Inl e \<Rightarrow> (Some e, b1)
              | Inr credits_text \<Rightarrow>
                  (None, console_log [Val (JStr (''Available credits: '' @ credits_text))] b1)))"

definition updateUserInterface :: "jsval \<Rightarrow> browser \<Rightarrow> js_error option \<times> browser" where
  "updateUserInterface userStatus b =
     (case get_prop userStatus ''success'' of
        Inl e \<Rightarrow> (Some e, b)
      | Inr success \<Rightarrow>
          if truthy success then
            (case get_prop userStatus ''tier'' of
               Inl e \<Rightarrow> (Some e, b)
             | Inr tier \<Rightarrow>
                 (case get_prop userStatus ''credits'' of
                    Inl e \<Rightarrow> (Some e, b)
                  | Inr credits \<Rightarrow> show_status tier credits b))
          else (None, b))"

definition success_try :: "network \<Rightarrow> browser \<Rightarrow> js_error option \<times> browser" where
  "success_try net b =
     (case getSubscriptionStatus net (paymentService b) b of
        (Inl e, b1) \<Rightarrow> (Some e, b1)
      | (Inr new_status, b1) \<Rightarrow>
          (case updateUserInterface new_status
                  (console_log [Val (JStr ''Updated user status:''), Val new_status] b1) of
             (Some e, b2) \<Rightarrow> (Some e, b2)
           | (None, b2) \<Rightarrow> (None, localStorage_removeItem ''stripe_session_id'' b2)))"

definition handlePaymentSuccess :: "network \<Rightarrow> browser \<Rightarrow> browser" where
  "handlePaymentSuccess net b =
     (let sessionId = urlParams_get b ''session_id''
      in if truthy sessionId then
           (case success_try net b of
              (None, b1) \<Rightarrow> b1
            | (Some error, b1) \<Rightarrow>
                console_error [Val (JStr ''Failed to get updated user status:''), Err error] b1)
         else b)"

text \<open>
  The browser once the script has run on a page with the given query parameters and
  local storage: line 70 has constructed the global \<^verbatim>\<open>paymentService\<close> with its defaults.
\<close>

definition page_load :: "(string \<times> string) list \<Rightarrow> (string \<times> string) list \<Rightarrow> browser" where
  "page_load search storage =
     \<lparr> paymentService = constructor None None, requests = [], json_calls = 0,
       localStorage = storage, location_search = search, opened = [], alerts = [], console = [] \<rparr>"

text \<open>A server that answers every request with the same response.\<close>

definition replies :: "response \<Rightarrow> network" where
  "replies r = (\<lambda>earlier req. Responded r)"

section \<open>The startup script\<close>

text \<open>
  \<^verbatim>\<open>start.sh\<close>, run by bash: the environment it exports and the command line it hands to
  \<^verbatim>\<open>exec\<close>. The expansion \<^verbatim>\<open>${PORT:-8000}\<close> takes the default when the variable is unset or
  empty; the assignment is not split. The unquoted \<^verbatim>\<open>$PORT\<close> of the command line is split
  into fields at the blanks of the default \<^verbatim>\<open>IFS\<close>, and a field with a pattern character
  is replaced by the file names it matches when there are any (\<open>glob\<close>, the file system's
  answer).
\<close>

definition is_ifs :: "char \<Rightarrow> bool" where
  "is_ifs c = (c = CHR '' '' \<or> c = CHR 0x09 \<or> c = CHR 0x0A)"

fun split_fields :: "string \<Rightarrow> string \<Rightarrow> string list" where
  "split_fields cur [] = (if cur = [] then [] else [cur])"
| "split_fields cur (c # cs) =
     (if is_ifs c then (if cur = [] then split_fields [] cs else cur # split_fields [] cs)
      else split_fields (cur @ [c]) cs)"

definition is_pattern_char :: "char \<Rightarrow> bool" where
  "is_pattern_char c = (c = CHR ''*'' \<or> c = CHR ''?'' \<or> c = CHR ''['')"

definition pathname_expand :: "(string \<Rightarrow> string list) \<Rightarrow> string \<Rightarrow> string list" where
  "pathname_expand glob field =
     (if list_ex is_pattern_char field \<and> glob field \<noteq> [] then glob field else [field])"

definition expand_unquoted :: "(string \<Rightarrow> string list) \<Rightarrow> string \<Rightarrow> string list" where
  "expand_unquoted glob v = concat (map (pathname_expand glob) (split_fields [] v))"

definition expand_default :: "(string \<rightharpoonup> string) \<Rightarrow> string \<Rightarrow> string \<Rightarrow> string" where
  "expand_default env name dflt =
     (case env name of None \<Rightarrow> dflt | Some v \<Rightarrow> if v = [] then dflt else v)"

definition start_sh ::
  "(string \<Rightarrow> string list) \<Rightarrow> (string \<rightharpoonup> string) \<Rightarrow> (string \<rightharpoonup> string) \<times> string list" where
  "start_sh glob env =
     (let env1 = env(''PORT'' \<mapsto> expand_default env ''PORT'' ''8000'')
      in (env1,
          [''uvicorn'', ''main:app'', ''--host'', ''0.0.0.0'', ''--port'']
            @ expand_unquoted glob (the (env1 ''PORT'')) @ [''--workers'', ''1'']))"

section \<open>Properties of objects\<close>


lemma keys_obj_set: "fst ` set (obj_set obj k v) = insert k (fst ` set obj)"
proof (induction obj)
  case Nil
  show ?case by simp
next
  case (Cons a obj)
  obtain k' v' where a: "a = (k', v')" by (cases a)
  show ?case
    using Cons.IH by (cases "k' = k") (simp_all add: a insert_commute)
qed

lemma distinct_obj_set: "distinct (map fst obj) \<Longrightarrow> distinct (map fst (obj_set obj k v))"
proof (induction obj)
  case Nil
  show ?case by simp
next
  case (Cons a obj)
  obtain k' v' where a: "a = (k', v')" by (cases a)
  show ?case
    using Cons by (cases "k' = k") (simp_all add: a keys_obj_set)
qed



lemma keys_obj_assign: "fst ` set (obj_assign obj ps) = fst ` set obj \<union> fst ` set ps"
proof (induction obj ps rule: obj_assign.induct)
  case (1 obj)
  show ?case by simp
next
  case (2 obj k v rest)
  then show ?case by (simp add: keys_obj_set)
qed

lemma distinct_obj_assign: "distinct (map fst obj) \<Longrightarrow> distinct (map fst (obj_assign obj ps))"
  by (induction obj ps rule: obj_assign.induct) (simp_all add: distinct_obj_set)

lemma keys_singleton_assign: "fst ` set (obj_assign [(c, x)] ps) = insert c (fst ` set ps)"
  by (simp add: keys_obj_assign)



section \<open>Properties of the header list\<close>

lemma normalize_value_id:
  assumes "s \<noteq> []" and "\<not> http_ws (hd s)" and "\<not> http_ws (last s)"
  shows "normalize_value s = s"
proof -
  have "dropWhile http_ws s = s"
    using assms by (simp add: dropWhile_eq_self_iff)
  moreover have "dropWhile http_ws (rev s) = rev s"
    using assms by (simp add: dropWhile_eq_self_iff hd_rev)
  ultimately show ?thesis
    by (simp add: normalize_value_def)
qed


lemma header_list_Cons:
  "header_list ((k, v) # rest) = Inr hl \<Longrightarrow>
   \<exists>str hl'. to_string v = Inr str \<and> header_list rest = Inr hl'
      \<and> hl = (k, normalize_value str) # hl'"
  by (cases "to_string v"; cases "header_list rest") (simp_all split: if_splits)

lemma header_values_none:
  "header_list hs = Inr hl \<Longrightarrow> \<forall>k \<in> fst ` set hs. \<not> same_header k name \<Longrightarrow>
   header_values hl name = []"
proof (induction hs arbitrary: hl)
  case Nil
  then show ?case by (simp add: header_values_def)
next
  case (Cons a hs)
  obtain k v where a: "a = (k, v)" by (cases a)
  from Cons.prems(1) obtain str hl' where parts:
    "to_string v = Inr str" "header_list hs = Inr hl'" "hl = (k, normalize_value str) # hl'"
    unfolding a by (blast dest: header_list_Cons)
  have "header_values hl' name = []"
    using Cons.IH [OF parts(2)] Cons.prems(2) by simp
  moreover have "\<not> same_header k name"
    using Cons.prems(2) by (simp add: a)
  ultimately show ?case
    by (simp add: header_values_def parts(3))
qed



lemma sent_header_none:
  "sent_header hs name = Inr h \<Longrightarrow> \<forall>k \<in> fst ` set hs. \<not> same_header k name \<Longrightarrow> h = None"
proof -
  assume sent: "sent_header hs name = Inr h" and none: "\<forall>k \<in> fst ` set hs. \<not> same_header k name"
  from sent obtain hl where hl: "header_list hs = Inr hl" and h: "h = header_get hl name"
    by (cases "header_list hs") (simp_all add: sent_header_def)
  from hl none have "header_values hl name = []"
    by (rule header_values_none)
  then show ?thesis
    by (simp add: h header_get_def)
qed



lemma sent_header_untouched:
  assumes sent: "sent_header (obj_assign [(c, x)] ps) a = Inr h"
    and other: "\<not> same_header c a"
    and none: "\<forall>k \<in> fst ` set ps. \<not> same_header k a"
  shows "h = None"
proof (rule sent_header_none [OF sent])
  show "\<forall>k \<in> fst ` set (obj_assign [(c, x)] ps). \<not> same_header k a"
    unfolding keys_singleton_assign using other none by blast
qed



text \<open>
The names and values that the theorems below compute with.
\<close>

lemma not_same_header_Content_Type_Authorization:
  "\<not> same_header ''Content-Type'' ''Authorization''" "\<not> same_header ''Authorization'' ''Content-Type''"
  "same_header ''Authorization'' ''Authorization''" "same_header ''Content-Type'' ''Content-Type''"
  by (simp_all add: same_header_def lower_char_def)


lemma normalize_application_json: "normalize_value ''application/json'' = ''application/json''"
  by (rule normalize_value_id) (simp_all add: http_ws_def)

lemma header_name_ok_known:
  "header_name_ok ''Content-Type''" "header_name_ok ''Authorization''" "header_name_ok ''authorization''"
  "header_name_ok ''X-Request-Id''"
  by (simp_all add: header_name_ok_def tchar_def)

lemma same_header_known:
  "same_header ''authorization'' ''Authorization''" "\<not> same_header ''X-Request-Id'' ''Authorization''"
  "\<not> same_header ''X-Request-Id'' ''Content-Type''"
  by (simp_all add: same_header_def lower_char_def)

lemma normalize_known:
  "normalize_value ''Basic abc'' = ''Basic abc''" "normalize_value ''Bearer tok'' = ''Bearer tok''"
  "normalize_value ''Bearer tok_1'' = ''Bearer tok_1''" "normalize_value ''Token xyz'' = ''Token xyz''"
  "normalize_value ''text/plain'' = ''text/plain''" "normalize_value ''42'' = ''42''"
  by (simp_all add: normalize_value_def http_ws_def)

lemma header_value_ok_known:
  "header_value_ok ''Basic abc''" "header_value_ok ''Bearer tok''" "header_value_ok ''Bearer tok_1''"
  "header_value_ok ''Token xyz''" "header_value_ok ''text/plain''" "header_value_ok ''application/json''"
  "header_value_ok ''42''"
  by (simp_all add: header_value_ok_def)

lemmas header_facts =
  header_name_ok_known same_header_known normalize_known header_value_ok_known
  normalize_application_json not_same_header_Content_Type_Authorization

section \<open>Properties of the request\<close>

lemma keys_initial_headers:
  "fst ` set (initial_headers options) = insert ''Content-Type'' (fst ` set (extra_headers options))"
  by (simp add: initial_headers_def keys_obj_assign)

lemma distinct_initial_headers: "distinct (map fst (initial_headers options))"
  by (simp add: initial_headers_def distinct_obj_assign)



lemma request_headers_falsy:
  "\<not> truthy (authToken s) \<Longrightarrow> request_headers s options = Inr (initial_headers options)"
  by (simp add: request_headers_def)


lemma request_headers_no_extra:
  "obj_get options ''headers'' = None \<Longrightarrow> request_headers s options = request_headers s []"
  by (simp add: request_headers_def initial_headers_def extra_headers_def options_headers_def obj_get_def)


lemma outgoing_Inr:
  "request_headers s options = Inr hs \<Longrightarrow>
   outgoing s url options
     = Inr (apiBaseUrl s @ url, obj_set (obj_assign [] options) ''headers'' (JObj hs))"
  by (simp add: outgoing_def)

lemma requests_makeAuthenticatedRequest:
  "outgoing s url options = Inr req \<Longrightarrow>
   requests (snd (makeAuthenticatedRequest net s url options b)) = requests b @ [req]"
  by (simp add: makeAuthenticatedRequest_def Let_def split: fetch_outcome.splits option.splits)

lemma requests_after:
  "request_headers s options = Inr hs \<Longrightarrow>
   requests (snd (makeAuthenticatedRequest net s url options b))
     = requests b @ [(apiBaseUrl s @ url, obj_set (obj_assign [] options) ''headers'' (JObj hs))]"
  by (rule requests_makeAuthenticatedRequest) (rule outgoing_Inr)

lemma makeAuthenticatedRequest_ok:
  "outgoing s url options = Inr req \<Longrightarrow> net (requests b) req = Responded r \<Longrightarrow> ok r \<Longrightarrow>
   json_body r = Some v \<Longrightarrow>
   makeAuthenticatedRequest net s url options b
     = (Inr v, b\<lparr> requests := requests b @ [req], json_calls := Suc (json_calls b) \<rparr>)"
  by (simp add: makeAuthenticatedRequest_def Let_def)

lemma makeAuthenticatedRequest_keeps:
  "paymentService (snd (makeAuthenticatedRequest net s url options b)) = paymentService b"
  "localStorage (snd (makeAuthenticatedRequest net s url options b)) = localStorage b"
  "location_search (snd (makeAuthenticatedRequest net s url options b)) = location_search b"
  "opened (snd (makeAuthenticatedRequest net s url options b)) = opened b"
  "alerts (snd (makeAuthenticatedRequest net s url options b)) = alerts b"
  "console (snd (makeAuthenticatedRequest net s url options b)) = console b"
  by (simp_all add: makeAuthenticatedRequest_def Let_def
      split: sum.splits fetch_outcome.splits option.splits)

lemma authToken_setAuthToken: "authToken (setAuthToken t s) = t"
  by (simp add: setAuthToken_def)

lemma apiBaseUrl_setAuthToken: "apiBaseUrl (setAuthToken t s) = apiBaseUrl s"
  by (simp add: setAuthToken_def)

lemma falsy_values:
  "\<not> truthy t \<longleftrightarrow> t \<in> {JUndefined, JNull, JBool False, JNum 0, JStr []}"
  by (cases t) auto

text \<open>
The requests of the default service and the option bundles used as examples.
\<close>

lemma constructor_default:
  "constructor None None = \<lparr> apiBaseUrl = ''http://localhost:8000'', authToken = JNull \<rparr>"
  by (simp add: constructor_def)

lemma initial_headers_no_options:
  "initial_headers [] = [(''Content-Type'', JStr ''application/json'')]"
  by (simp add: initial_headers_def extra_headers_def options_headers_def obj_get_def)

lemma request_headers_default:
  "request_headers (constructor None None) [] = Inr [(''Content-Type'', JStr ''application/json'')]"
  by (simp add: request_headers_falsy constructor_default initial_headers_no_options)

lemma outgoing_default_no_options:
  "outgoing (constructor None None) url []
     = Inr (''http://localhost:8000'' @ url, [(''headers'', JObj [(''Content-Type'', JStr ''application/json'')])])"
  by (simp add: outgoing_def request_headers_falsy constructor_default initial_headers_no_options)

lemma extra_headers_request_id:
  "extra_headers [(''headers'', JObj [(''X-Request-Id'', JStr ''42'')])] = [(''X-Request-Id'', JStr ''42'')]"
  by (simp add: extra_headers_def options_headers_def obj_get_def)

lemma initial_headers_request_id:
  "initial_headers [(''headers'', JObj [(''X-Request-Id'', JStr ''42'')])]
     = [(''Content-Type'', JStr ''application/json''), (''X-Request-Id'', JStr ''42'')]"
  by (simp add: initial_headers_def extra_headers_request_id)




text \<open>
Decimal numerals: reading back what \<open>show_nat\<close> prints gives the number.
\<close>

lemma digit_value_digit_char: "d < 10 \<Longrightarrow> digit_value (digit_char d) = d"
proof -
  assume "d < 10"
  then have "d \<in> {0, 1, 2, 3, 4, 5, 6, 7, 8, 9}" by auto
  then show ?thesis
    by (auto simp: digit_value_def digit_char_def)
qed

lemma read_nat_show_nat: "read_nat (show_nat n) = n"
proof (induction n rule: show_nat.induct)
  case (1 n)
  show ?case
  proof (cases "n < 10")
    case True
    then show ?thesis
      by (simp add: show_nat.simps [of n] read_nat_def digit_value_digit_char)
  next
    case False
    with 1 have "read_nat (show_nat (n div 10)) = n div 10" by simp
    with False show ?thesis
      by (simp add: show_nat.simps [of n] read_nat_def digit_value_digit_char)
  qed
qed

lemma show_nat_inject: "show_nat m = show_nat n \<longleftrightarrow> m = n"
  by (metis read_nat_show_nat)

lemma show_nat_500: "show_nat 500 = ''500''"
  by code_simp

lemma show_nat_100: "show_nat 100 = ''100''"
  by code_simp

lemma show_nat_120: "show_nat 120 = ''120''"
  by code_simp

section \<open>The token and the Authorization header\<close>






text \<open>
  Claim C10, as stated, fails where it says that no \<^verbatim>\<open>Authorization\<close> header goes out:
  after \<^verbatim>\<open>setAuthToken("")\<close> the request still carries the header that the caller put
  into \<^verbatim>\<open>options.headers\<close>.
\<close>

theorem C10_counterexample:
  "\<not> truthy (JStr [])
   \<and> requests (snd (makeAuthenticatedRequest (replies \<lparr> status = 200, json_body = Some JNull \<rparr>)
       (setAuthToken (JStr []) (constructor None None)) ''/subscriptions/status''
       [(''headers'', JObj [(''Authorization'', JStr ''Token xyz'')])] (page_load [] [])))
     = [(''http://localhost:8000/subscriptions/status'',
         [(''headers'', JObj [(''Content-Type'', JStr ''application/json''),
                              (''Authorization'', JStr ''Token xyz'')])])]
   \<and> sent_header [(''Content-Type'', JStr ''application/json''), (''Authorization'', JStr ''Token xyz'')]
        ''Authorization'' = Inr (Some ''Token xyz'')"
proof (intro conjI)
  show "\<not> truthy (JStr [])" by simp
  have opts: "initial_headers [(''headers'', JObj [(''Authorization'', JStr ''Token xyz'')])]
      = [(''Content-Type'', JStr ''application/json''), (''Authorization'', JStr ''Token xyz'')]"
    by (simp add: initial_headers_def extra_headers_def options_headers_def obj_get_def)
  have hs: "request_headers (setAuthToken (JStr []) (constructor None None))
        [(''headers'', JObj [(''Authorization'', JStr ''Token xyz'')])]
      = Inr [(''Content-Type'', JStr ''application/json''), (''Authorization'', JStr ''Token xyz'')]"
    by (simp add: request_headers_falsy authToken_setAuthToken opts)
  show "requests (snd (makeAuthenticatedRequest (replies \<lparr> status = 200, json_body = Some JNull \<rparr>)
       (setAuthToken (JStr []) (constructor None None)) ''/subscriptions/status''
       [(''headers'', JObj [(''Authorization'', JStr ''Token xyz'')])] (page_load [] [])))
     = [(''http://localhost:8000/subscriptions/status'',
         [(''headers'', JObj [(''Content-Type'', JStr ''application/json''),
                              (''Authorization'', JStr ''Token xyz'')])])]"
    unfolding requests_after [OF hs] by (simp add: page_load_def constructor_def setAuthToken_def)
  show "sent_header [(''Content-Type'', JStr ''application/json''), (''Authorization'', JStr ''Token xyz'')]
        ''Authorization'' = Inr (Some ''Token xyz'')"
    by (simp add: sent_header_def header_get_def header_values_def header_facts)
qed

text \<open>
  Claim C10, amended. Token presence is decided by truthiness: after \<^verbatim>\<open>setAuthToken(t)\<close>
  with any falsy \<open>t\<close> (the empty string, \<^verbatim>\<open>null\<close>, \<^verbatim>\<open>undefined\<close>, \<^verbatim>\<open>false\<close>, \<^verbatim>\<open>0\<close>)
  every call and its outcome are exactly those of a service whose token is \<^verbatim>\<open>null\<close>,
  as if none had been set; the header object is the one of lines 15 to 18, the client
  adding no \<^verbatim>\<open>Authorization\<close> property, so a request whose extra headers name no
  \<^verbatim>\<open>Authorization\<close> header under any capitalisation carries none.
\<close>

theorem C10_falsy_token:
  assumes "\<not> truthy t"
  shows "makeAuthenticatedRequest net (setAuthToken t s) url options b
           = makeAuthenticatedRequest net (setAuthToken JNull s) url options b
         \<and> request_headers (setAuthToken t s) options = Inr (initial_headers options)
         \<and> requests (snd (makeAuthenticatedRequest net (setAuthToken t s) url options b))
             = requests b @ [(apiBaseUrl s @ url,
                  obj_set (obj_assign [] options) ''headers'' (JObj (initial_headers options)))]
         \<and> (\<forall>h. (\<forall>k \<in> fst ` set (extra_headers options). \<not> same_header k ''Authorization'')
                \<and> sent_header (initial_headers options) ''Authorization'' = Inr h
              \<longrightarrow> h = None)"
proof (intro conjI allI impI)
  have hs: "request_headers (setAuthToken t s) options = Inr (initial_headers options)"
    using assms by (intro request_headers_falsy) (simp add: authToken_setAuthToken)
  have hs0: "request_headers (setAuthToken JNull s) options = Inr (initial_headers options)"
    by (intro request_headers_falsy) (simp add: authToken_setAuthToken)
  have "outgoing (setAuthToken t s) url options = outgoing (setAuthToken JNull s) url options"
    by (simp add: outgoing_def hs hs0 apiBaseUrl_setAuthToken)
  then show "makeAuthenticatedRequest net (setAuthToken t s) url options b
           = makeAuthenticatedRequest net (setAuthToken JNull s) url options b"
    by (simp add: makeAuthenticatedRequest_def)
  show "request_headers (setAuthToken t s) options = Inr (initial_headers options)"
    by (rule hs)
  show "requests (snd (makeAuthenticatedRequest net (setAuthToken t s) url options b))
             = requests b @ [(apiBaseUrl s @ url,
                  obj_set (obj_assign [] options) ''headers'' (JObj (initial_headers options)))]"
    using requests_after [OF hs, of net url b] by (simp add: apiBaseUrl_setAuthToken)
  fix h
  assume a: "(\<forall>k \<in> fst ` set (extra_headers options). \<not> same_header k ''Authorization'')
                \<and> sent_header (initial_headers options) ''Authorization'' = Inr h"
  then have sent: "sent_header (obj_assign [(''Content-Type'', JStr ''application/json'')]
        (extra_headers options)) ''Authorization'' = Inr h"
    by (simp add: initial_headers_def)
  from a have none: "\<forall>k \<in> fst ` set (extra_headers options). \<not> same_header k ''Authorization''"
    by (rule conjunct1)
  show "h = None"
    by (rule sent_header_untouched [OF sent not_same_header_Content_Type_Authorization(1) none])
qed

text \<open>
  The amended claim for the empty string, set on a service that held \<^verbatim>\<open>tok_1\<close>.
\<close>

theorem C10_falsy_token_witness:
  "\<not> truthy (JStr [])
   \<and> makeAuthenticatedRequest (replies \<lparr> status = 200, json_body = Some JNull \<rparr>)
         (setAuthToken (JStr []) (constructor None (Some (JStr ''tok_1'')))) ''/subscriptions/status''
         [(''headers'', JObj [(''X-Request-Id'', JStr ''42'')])] (page_load [] [])
       = makeAuthenticatedRequest (replies \<lparr> status = 200, json_body = Some JNull \<rparr>)
         (setAuthToken JNull (constructor None (Some (JStr ''tok_1'')))) ''/subscriptions/status''
         [(''headers'', JObj [(''X-Request-Id'', JStr ''42'')])] (page_load [] [])
   \<and> request_headers (setAuthToken (JStr []) (constructor None (Some (JStr ''tok_1''))))
        [(''headers'', JObj [(''X-Request-Id'', JStr ''42'')])]
       = Inr [(''Content-Type'', JStr ''application/json''), (''X-Request-Id'', JStr ''42'')]
   \<and> extra_headers [(''headers'', JObj [(''X-Request-Id'', JStr ''42'')])] = [(''X-Request-Id'', JStr ''42'')]
   \<and> \<not> same_header ''X-Request-Id'' ''Authorization''
   \<and> sent_header [(''Content-Type'', JStr ''application/json''), (''X-Request-Id'', JStr ''42'')]
        ''Authorization''
       = Inr None"
proof -
  let ?opts = "[(''headers'', JObj [(''X-Request-Id'', JStr ''42'')])]"
  let ?plain = "[(''Content-Type'', JStr ''application/json''), (''X-Request-Id'', JStr ''42'')]"
  have h1: "\<not> truthy (JStr [])" by simp
  note claim = C10_falsy_token [OF h1, of "replies \<lparr> status = 200, json_body = Some JNull \<rparr>"
      "constructor None (Some (JStr ''tok_1''))" "''/subscriptions/status''" ?opts "page_load [] []"]
  have w1: "makeAuthenticatedRequest (replies \<lparr> status = 200, json_body = Some JNull \<rparr>)
         (setAuthToken (JStr []) (constructor None (Some (JStr ''tok_1'')))) ''/subscriptions/status''
         ?opts (page_load [] [])
       = makeAuthenticatedRequest (replies \<lparr> status = 200, json_body = Some JNull \<rparr>)
         (setAuthToken JNull (constructor None (Some (JStr ''tok_1'')))) ''/subscriptions/status''
         ?opts (page_load [] [])"
    by (rule claim [THEN conjunct1])
  have w2: "request_headers (setAuthToken (JStr []) (constructor None (Some (JStr ''tok_1'')))) ?opts
       = Inr ?plain"
    using claim [THEN conjunct2, THEN conjunct1] by (simp only: initial_headers_request_id)
  have h2: "\<forall>k \<in> fst ` set (extra_headers ?opts). \<not> same_header k ''Authorization''"
    by (simp add: extra_headers_request_id same_header_known)
  have sent0: "sent_header ?plain ''Authorization'' = Inr None"
    by (simp add: sent_header_def header_get_def header_values_def header_facts)
  have h3: "(\<forall>k \<in> fst ` set (extra_headers ?opts). \<not> same_header k ''Authorization'')
      \<and> sent_header (initial_headers ?opts) ''Authorization'' = Inr None"
    using h2 sent0 by (simp only: initial_headers_request_id)
  have w3: "(None :: string option) = None"
    by (rule claim [THEN conjunct2, THEN conjunct2, THEN conjunct2, rule_format, OF h3])
  show ?thesis
    using w3 by (intro conjI h1 w1 w2 extra_headers_request_id same_header_known(2) sent0)
qed

section \<open>The content type\<close>




section \<open>The response\<close>

text \<open>
  Claim C2. For every request that goes out and every response to it whose status is
  outside 200 to 299, \<^verbatim>\<open>makeAuthenticatedRequest\<close> fails with the error of line 30, whose
  message ends in the decimal numeral of the status code (reading the numeral back gives
  the code), and \<^verbatim>\<open>response.json()\<close> is not called.
\<close>

theorem C2_http_error:
  assumes "outgoing s url options = Inr req"
    and "net (requests b) req = Responded r"
    and "\<not> (200 \<le> status r \<and> status r \<le> 299)"
  shows "fst (makeAuthenticatedRequest net s url options b)
           = Inl (Error (''HTTP error! status: '' @ show_nat (status r)))
         \<and> read_nat (show_nat (status r)) = status r
         \<and> json_calls (snd (makeAuthenticatedRequest net s url options b)) = json_calls b"
  using assms by (simp add: makeAuthenticatedRequest_def Let_def ok_def read_nat_show_nat)

text \<open>
  The claim at a response with status 500, whose body is never parsed.
\<close>

theorem C2_http_error_witness:
  "outgoing (constructor None None) ''/pricing/plans'' []
     = Inr (''http://localhost:8000/pricing/plans'',
            [(''headers'', JObj [(''Content-Type'', JStr ''application/json'')])])
   \<and> replies \<lparr> status = 500, json_body = Some (JObj [(''detail'', JStr ''boom'')]) \<rparr>
       (requests (page_load [] []))
       (''http://localhost:8000/pricing/plans'',
        [(''headers'', JObj [(''Content-Type'', JStr ''application/json'')])])
     = Responded \<lparr> status = 500, json_body = Some (JObj [(''detail'', JStr ''boom'')]) \<rparr>
   \<and> \<not> (200 \<le> (500::nat) \<and> (500::nat) \<le> 299)
   \<and> fst (makeAuthenticatedRequest (replies \<lparr> status = 500, json_body = Some (JObj [(''detail'', JStr ''boom'')]) \<rparr>)
            (constructor None None) ''/pricing/plans'' [] (page_load [] []))
        = Inl (Error ''HTTP error! status: 500'')
   \<and> json_calls (snd (makeAuthenticatedRequest (replies \<lparr> status = 500, json_body = Some (JObj [(''detail'', JStr ''boom'')]) \<rparr>)
            (constructor None None) ''/pricing/plans'' [] (page_load [] []))) = 0"
proof -
  let ?r = "\<lparr> status = 500, json_body = Some (JObj [(''detail'', JStr ''boom'')]) \<rparr>"
  let ?req = "(''http://localhost:8000/pricing/plans'',
        [(''headers'', JObj [(''Content-Type'', JStr ''application/json'')])])"
  have h0: "outgoing (constructor None None) ''/pricing/plans'' [] = Inr ?req"
    using outgoing_default_no_options [of "''/pricing/plans''"] by simp
  have h1: "replies ?r (requests (page_load [] [])) ?req = Responded ?r"
    by (simp add: replies_def)
  have h2: "\<not> (200 \<le> status ?r \<and> status ?r \<le> 299)"
    by simp
  note claim = C2_http_error [where net = "replies ?r" and b = "page_load [] []"
      and s = "constructor None None" and url = "''/pricing/plans''" and options = "[]"
      and req = ?req and r = ?r, OF h0 h1 h2]
  have w1: "fst (makeAuthenticatedRequest (replies ?r) (constructor None None) ''/pricing/plans'' []
        (page_load [] [])) = Inl (Error ''HTTP error! status: 500'')"
    using claim [THEN conjunct1] by (simp add: show_nat_500)
  have w2: "json_calls (snd (makeAuthenticatedRequest (replies ?r) (constructor None None)
        ''/pricing/plans'' [] (page_load [] []))) = 0"
    using claim [THEN conjunct2, THEN conjunct2] by (simp add: page_load_def)
  have h2': "\<not> (200 \<le> (500::nat) \<and> (500::nat) \<le> 299)" by simp
  show ?thesis
    by (intro conjI h0 h1 h2' w1 w2)
qed

text \<open>
  Claim C3. For every request that goes out and every response to it whose status is
  from 200 to 299 and whose body is the JSON value \<open>v\<close>, \<^verbatim>\<open>makeAuthenticatedRequest\<close>
  returns \<open>v\<close> itself, after one call of \<^verbatim>\<open>response.json()\<close>.
\<close>

theorem C3_json_round_trip:
  assumes "outgoing s url options = Inr req"
    and "net (requests b) req = Responded r"
    and "200 \<le> status r" and "status r \<le> 299"
    and "json_body r = Some v"
  shows "fst (makeAuthenticatedRequest net s url options b) = Inr v
         \<and> json_calls (snd (makeAuthenticatedRequest net s url options b)) = json_calls b + 1"
  using assms by (simp add: makeAuthenticatedRequest_def Let_def ok_def)

text \<open>
  The claim at a status 200 response carrying a subscription status.
\<close>

theorem C3_json_round_trip_witness:
  "outgoing (constructor None None) ''/subscriptions/status'' []
     = Inr (''http://localhost:8000/subscriptions/status'',
            [(''headers'', JObj [(''Content-Type'', JStr ''application/json'')])])
   \<and> replies \<lparr> status = 200, json_body = Some (JObj [(''success'', JBool True), (''tier'', JStr ''free''), (''credits'', JNum (- 1))]) \<rparr>
       (requests (page_load [] []))
       (''http://localhost:8000/subscriptions/status'',
        [(''headers'', JObj [(''Content-Type'', JStr ''application/json'')])])
     = Responded \<lparr> status = 200, json_body = Some (JObj [(''success'', JBool True), (''tier'', JStr ''free''), (''credits'', JNum (- 1))]) \<rparr>
   \<and> (200::nat) \<le> 200 \<and> (200::nat) \<le> 299
   \<and> fst (makeAuthenticatedRequest
            (replies \<lparr> status = 200, json_body = Some (JObj [(''success'', JBool True), (''tier'', JStr ''free''), (''credits'', JNum (- 1))]) \<rparr>)
            (constructor None None) ''/subscriptions/status'' [] (page_load [] []))
        = Inr (JObj [(''success'', JBool True), (''tier'', JStr ''free''), (''credits'', JNum (- 1))])"
proof -
  let ?v = "JObj [(''success'', JBool True), (''tier'', JStr ''free''), (''credits'', JNum (- 1))]"
  let ?r = "\<lparr> status = 200, json_body = Some ?v \<rparr>"
  let ?req = "(''http://localhost:8000/subscriptions/status'',
        [(''headers'', JObj [(''Content-Type'', JStr ''application/json'')])])"
  have h0: "outgoing (constructor None None) ''/subscriptions/status'' [] = Inr ?req"
    using outgoing_default_no_options [of "''/subscriptions/status''"] by simp
  have h1: "replies ?r (requests (page_load [] [])) ?req = Responded ?r"
    by (simp add: replies_def)
  have h2: "200 \<le> status ?r" by simp
  have h3: "status ?r \<le> 299" by simp
  have h4: "json_body ?r = Some ?v" by simp
  note claim = C3_json_round_trip [where net = "replies ?r" and b = "page_load [] []"
      and s = "constructor None None" and url = "''/subscriptions/status''" and options = "[]"
      and req = ?req and r = ?r and v = ?v, OF h0 h1 h2 h3 h4]
  have n1: "(200::nat) \<le> 200" and n2: "(200::nat) \<le> 299" by simp_all
  show ?thesis
    by (intro conjI h0 h1 n1 n2 claim [THEN conjunct1])
qed

section \<open>The purchase handlers\<close>

lemma map_of_storage_set: "map_of (storage_set st k v) k' = (if k' = k then Some v else map_of st k')"
  by (induction st) auto

lemma map_of_storage_remove:
  "map_of (filter (\<lambda>kv. fst kv \<noteq> k) st) k' = (if k' = k then None else map_of st k')"
  by (induction st) auto

lemma stringify_plan_pro:
  \<open>stringify_value (JObj [(''plan'', JStr ''pro'')]) = JStr ''{"plan":"pro"}''\<close>
  by (simp add: stringify_value_def quote_def quote_char_def)

lemma stringify_amount_100:
  \<open>stringify_value (JObj [(''amount'', JNum 100)]) = JStr ''{"amount":100}''\<close>
  by (simp add: stringify_value_def quote_def quote_char_def show_int_def show_nat_100)

lemma outgoing_createSubscription:
  assumes "request_headers s [] = Inr hs"
  shows \<open>outgoing s ''/subscriptions/create''
       [(''method'', JStr ''POST''), (''body'', stringify_value (JObj [(''plan'', JStr ''pro'')]))]
     = Inr (apiBaseUrl s @ ''/subscriptions/create'',
        [(''method'', JStr ''POST''), (''body'', JStr ''{"plan":"pro"}''), (''headers'', JObj hs)])\<close>
proof -
  have \<open>request_headers s [(''method'', JStr ''POST''), (''body'', JStr ''{"plan":"pro"}'')] = Inr hs\<close>
    using request_headers_no_extra
      [of \<open>[(''method'', JStr ''POST''), (''body'', JStr ''{"plan":"pro"}'')]\<close> s] assms
    by (simp add: obj_get_def)
  then show ?thesis
    by (simp add: outgoing_def stringify_plan_pro)
qed

lemma outgoing_purchaseCredits:
  assumes "request_headers s [] = Inr hs"
  shows \<open>outgoing s ''/credits/purchase''
       [(''method'', JStr ''POST''), (''body'', stringify_value (JObj [(''amount'', JNum 100)]))]
     = Inr (apiBaseUrl s @ ''/credits/purchase'',
        [(''method'', JStr ''POST''), (''body'', JStr ''{"amount":100}''), (''headers'', JObj hs)])\<close>
proof -
  have \<open>request_headers s [(''method'', JStr ''POST''), (''body'', JStr ''{"amount":100}'')] = Inr hs\<close>
    using request_headers_no_extra
      [of \<open>[(''method'', JStr ''POST''), (''body'', JStr ''{"amount":100}'')]\<close> s] assms
    by (simp add: obj_get_def)
  then show ?thesis
    by (simp add: outgoing_def stringify_amount_100)
qed

text \<open>
  Claim C5. \<^verbatim>\<open>createSubscription("pro")\<close>, on a service whose header object \<open>hs\<close> can be
  built, issues one request, to the base URL followed by \<^verbatim>\<open>/subscriptions/create\<close>, with
  method POST and the body text \<^verbatim>\<open>{"plan":"pro"}\<close>; and when that request, made by
  \<^verbatim>\<open>handleSubscriptionPurchase("pro")\<close>, is answered with a success status and the body
  \<^verbatim>\<open>{"success":true,"checkout_url":"https://pay.example/cs_1","session_id":"cs_1"}\<close>, the
  handler leaves \<^verbatim>\<open>cs_1\<close> in local storage under \<^verbatim>\<open>stripe_session_id\<close>, has opened the
  checkout URL with the target \<^verbatim>\<open>_blank\<close>, and shows no alert.
\<close>

theorem C5_subscription_purchase:
  \<open>(\<forall>hs. request_headers s [] = Inr hs \<longrightarrow>
      requests (snd (createSubscription net s (JStr ''pro'') b))
        = requests b @ [(apiBaseUrl s @ ''/subscriptions/create'',
                         [(''method'', JStr ''POST''), (''body'', JStr ''{"plan":"pro"}''),
                          (''headers'', JObj hs)])])
   \<and> (\<forall>r hs. request_headers (paymentService b) [] = Inr hs
           \<and> net (requests b)
                (apiBaseUrl (paymentService b) @ ''/subscriptions/create'',
                 [(''method'', JStr ''POST''), (''body'', JStr ''{"plan":"pro"}''),
                  (''headers'', JObj hs)]) = Responded r
           \<and> 200 \<le> status r \<and> status r \<le> 299
           \<and> json_body r = Some (JObj [(''success'', JBool True),
                                        (''checkout_url'', JStr ''https://pay.example/cs_1''),
                                        (''session_id'', JStr ''cs_1'')])
        \<longrightarrow> localStorage_getItem (handleSubscriptionPurchase net (JStr ''pro'') b) ''stripe_session_id''
              = Some ''cs_1''
            \<and> opened (handleSubscriptionPurchase net (JStr ''pro'') b)
              = opened b @ [(JStr ''https://pay.example/cs_1'', ''_blank'')]
            \<and> alerts (handleSubscriptionPurchase net (JStr ''pro'') b) = alerts b)\<close>
proof (intro conjI allI impI)
  fix hs
  assume "request_headers s [] = Inr hs"
  then show \<open>requests (snd (createSubscription net s (JStr ''pro'') b))
        = requests b @ [(apiBaseUrl s @ ''/subscriptions/create'',
                         [(''method'', JStr ''POST''), (''body'', JStr ''{"plan":"pro"}''),
                          (''headers'', JObj hs)])]\<close>
    unfolding createSubscription_def
    by (intro requests_makeAuthenticatedRequest outgoing_createSubscription)
next
  fix r hs
  let ?opts = "[(''method'', JStr ''POST''), (''body'', stringify_value (JObj [(''plan'', JStr ''pro'')]))]"
  let ?v = "JObj [(''success'', JBool True), (''checkout_url'', JStr ''https://pay.example/cs_1''),
                  (''session_id'', JStr ''cs_1'')]"
  let ?b' = "handleSubscriptionPurchase net (JStr ''pro'') b"
  let ?req = \<open>(apiBaseUrl (paymentService b) @ ''/subscriptions/create'',
                 [(''method'', JStr ''POST''), (''body'', JStr ''{"plan":"pro"}''),
                  (''headers'', JObj hs)])\<close>
  assume a: \<open>request_headers (paymentService b) [] = Inr hs
           \<and> net (requests b)
                (apiBaseUrl (paymentService b) @ ''/subscriptions/create'',
                 [(''method'', JStr ''POST''), (''body'', JStr ''{"plan":"pro"}''),
                  (''headers'', JObj hs)]) = Responded r
           \<and> 200 \<le> status r \<and> status r \<le> 299 \<and> json_body r = Some ?v\<close>
  then have out: "outgoing (paymentService b) ''/subscriptions/create'' ?opts = Inr ?req"
    by (intro outgoing_createSubscription) simp
  have resp: "net (requests b) ?req = Responded r" using a by simp
  have okr: "ok r" using a by (simp add: ok_def)
  have body: "json_body r = Some ?v" using a by simp
  have call: "createSubscription net (paymentService b) (JStr ''pro'') b
        = (Inr ?v, b\<lparr> requests := requests b @ [?req], json_calls := Suc (json_calls b) \<rparr>)"
    unfolding createSubscription_def using out resp okr body by (rule makeAuthenticatedRequest_ok)
  have handled: "?b' = b\<lparr> requests := requests b @ [?req], json_calls := Suc (json_calls b),
        opened := opened b @ [(JStr ''https://pay.example/cs_1'', ''_blank'')],
        localStorage := storage_set (localStorage b) ''stripe_session_id'' ''cs_1'' \<rparr>"
    by (simp add: handleSubscriptionPurchase_def subscription_try_def call obj_get_def
        subscription_checkout_def window_open_def localStorage_setItem_def)
  show "localStorage_getItem ?b' ''stripe_session_id'' = Some ''cs_1''"
    unfolding handled by (simp add: localStorage_getItem_def map_of_storage_set)
  show "opened ?b' = opened b @ [(JStr ''https://pay.example/cs_1'', ''_blank'')]"
    unfolding handled by simp
  show "alerts ?b' = alerts b"
    unfolding handled by simp
qed

text \<open>
  The claim on a freshly loaded page, the server answering with status 200.
\<close>

theorem C5_subscription_purchase_witness:
  \<open>request_headers (constructor None None) [] = Inr [(''Content-Type'', JStr ''application/json'')]
   \<and> requests (snd (createSubscription
       (replies \<lparr> status = 200, json_body = Some (JObj [(''success'', JBool True),
          (''checkout_url'', JStr ''https://pay.example/cs_1''), (''session_id'', JStr ''cs_1'')]) \<rparr>)
       (constructor None None) (JStr ''pro'') (page_load [] [])))
     = [(''http://localhost:8000/subscriptions/create'',
         [(''method'', JStr ''POST''), (''body'', JStr ''{"plan":"pro"}''),
          (''headers'', JObj [(''Content-Type'', JStr ''application/json'')])])]
   \<and> (200::nat) \<le> 200 \<and> (200::nat) \<le> 299
   \<and> localStorage_getItem (handleSubscriptionPurchase
       (replies \<lparr> status = 200, json_body = Some (JObj [(''success'', JBool True),
          (''checkout_url'', JStr ''https://pay.example/cs_1''), (''session_id'', JStr ''cs_1'')]) \<rparr>)
       (JStr ''pro'') (page_load [] [])) ''stripe_session_id'' = Some ''cs_1''
   \<and> opened (handleSubscriptionPurchase
       (replies \<lparr> status = 200, json_body = Some (JObj [(''success'', JBool True),
          (''checkout_url'', JStr ''https://pay.example/cs_1''), (''session_id'', JStr ''cs_1'')]) \<rparr>)
       (JStr ''pro'') (page_load [] []))
     = [(JStr ''https://pay.example/cs_1'', ''_blank'')]\<close>
proof -
  let ?r = "\<lparr> status = 200, json_body = Some (JObj [(''success'', JBool True),
          (''checkout_url'', JStr ''https://pay.example/cs_1''), (''session_id'', JStr ''cs_1'')]) \<rparr>"
  let ?hs = "[(''Content-Type'', JStr ''application/json'')]"
  note claim = C5_subscription_purchase [of "constructor None None" "replies ?r" "page_load [] []"]
  have service: "paymentService (page_load [] []) = constructor None None"
    by (simp add: page_load_def)
  have h: \<open>request_headers (paymentService (page_load [] [])) [] = Inr ?hs
           \<and> replies ?r (requests (page_load [] []))
                (apiBaseUrl (paymentService (page_load [] [])) @ ''/subscriptions/create'',
                 [(''method'', JStr ''POST''), (''body'', JStr ''{"plan":"pro"}''),
                  (''headers'', JObj ?hs)]) = Responded ?r
           \<and> 200 \<le> status ?r \<and> status ?r \<le> 299
           \<and> json_body ?r = Some (JObj [(''success'', JBool True),
                                        (''checkout_url'', JStr ''https://pay.example/cs_1''),
                                        (''session_id'', JStr ''cs_1'')])\<close>
    by (simp add: replies_def service request_headers_default)
  have base: "apiBaseUrl (constructor None None) = ''http://localhost:8000''"
    by (simp add: constructor_def)
  have empty: "requests (page_load [] []) = []" "opened (page_load [] []) = []"
    by (simp_all add: page_load_def)
  have w1: \<open>requests (snd (createSubscription (replies ?r) (constructor None None) (JStr ''pro'')
        (page_load [] [])))
     = [(''http://localhost:8000/subscriptions/create'',
         [(''method'', JStr ''POST''), (''body'', JStr ''{"plan":"pro"}''), (''headers'', JObj ?hs)])]\<close>
    using claim [THEN conjunct1, rule_format, OF request_headers_default] by (simp add: base empty)
  note handled = claim [THEN conjunct2, rule_format, OF h]
  have w2: "localStorage_getItem (handleSubscriptionPurchase (replies ?r) (JStr ''pro'') (page_load [] []))
      ''stripe_session_id'' = Some ''cs_1''"
    by (rule handled [THEN conjunct1])
  have w3: "opened (handleSubscriptionPurchase (replies ?r) (JStr ''pro'') (page_load [] []))
      = [(JStr ''https://pay.example/cs_1'', ''_blank'')]"
    using handled [THEN conjunct2, THEN conjunct1] by (simp add: empty)
  have n1: "(200::nat) \<le> 200" and n2: "(200::nat) \<le> 299" by simp_all
  show ?thesis
    by (intro conjI request_headers_default w1 n1 n2 w2 w3)
qed

text \<open>
  Claim C6. \<^verbatim>\<open>purchaseCredits(100)\<close>, on a service whose header object \<open>hs\<close> can be built,
  issues one request, to the base URL followed by \<^verbatim>\<open>/credits/purchase\<close>, with method POST
  and the body text \<^verbatim>\<open>{"amount":100}\<close>; and when that request, made by
  \<^verbatim>\<open>handleCreditPurchase(100)\<close>, is answered with a success status and the body
  \<^verbatim>\<open>{"success":true,"total_credits":120}\<close>, the one alert shown reads
  \<^verbatim>\<open>You'll receive 120 credits after payment!\<close>.
\<close>

theorem C6_credit_purchase:
  \<open>(\<forall>hs. request_headers s [] = Inr hs \<longrightarrow>
      requests (snd (purchaseCredits net s (JNum 100) b))
        = requests b @ [(apiBaseUrl s @ ''/credits/purchase'',
                         [(''method'', JStr ''POST''), (''body'', JStr ''{"amount":100}''),
                          (''headers'', JObj hs)])])
   \<and> (\<forall>r hs. request_headers (paymentService b) [] = Inr hs
           \<and> net (requests b)
                (apiBaseUrl (paymentService b) @ ''/credits/purchase'',
                 [(''method'', JStr ''POST''), (''body'', JStr ''{"amount":100}''),
                  (''headers'', JObj hs)]) = Responded r
           \<and> 200 \<le> status r \<and> status r \<le> 299
           \<and> json_body r = Some (JObj [(''success'', JBool True), (''total_credits'', JNum 120)])
        \<longrightarrow> alerts (handleCreditPurchase net (JNum 100) b)
              = alerts b @ [''You'' @ [CHR 0x27] @ ''ll receive 120 credits after payment!''])\<close>
proof (intro conjI allI impI)
  fix hs
  assume "request_headers s [] = Inr hs"
  then show \<open>requests (snd (purchaseCredits net s (JNum 100) b))
        = requests b @ [(apiBaseUrl s @ ''/credits/purchase'',
                         [(''method'', JStr ''POST''), (''body'', JStr ''{"amount":100}''),
                          (''headers'', JObj hs)])]\<close>
    unfolding purchaseCredits_def
    by (intro requests_makeAuthenticatedRequest outgoing_purchaseCredits)
next
  fix r hs
  let ?opts = "[(''method'', JStr ''POST''), (''body'', stringify_value (JObj [(''amount'', JNum 100)]))]"
  let ?v = "JObj [(''success'', JBool True), (''total_credits'', JNum 120)]"
  let ?req = \<open>(apiBaseUrl (paymentService b) @ ''/credits/purchase'',
                 [(''method'', JStr ''POST''), (''body'', JStr ''{"amount":100}''),
                  (''headers'', JObj hs)])\<close>
  assume a: \<open>request_headers (paymentService b) [] = Inr hs
           \<and> net (requests b)
                (apiBaseUrl (paymentService b) @ ''/credits/purchase'',
                 [(''method'', JStr ''POST''), (''body'', JStr ''{"amount":100}''),
                  (''headers'', JObj hs)]) = Responded r
           \<and> 200 \<le> status r \<and> status r \<le> 299 \<and> json_body r = Some ?v\<close>
  then have out: "outgoing (paymentService b) ''/credits/purchase'' ?opts = Inr ?req"
    by (intro outgoing_purchaseCredits) simp
  have resp: "net (requests b) ?req = Responded r" using a by simp
  have okr: "ok r" using a by (simp add: ok_def)
  have body: "json_body r = Some ?v" using a by simp
  have call: "purchaseCredits net (paymentService b) (JNum 100) b
        = (Inr ?v, b\<lparr> requests := requests b @ [?req], json_calls := Suc (json_calls b) \<rparr>)"
    unfolding purchaseCredits_def using out resp okr body by (rule makeAuthenticatedRequest_ok)
  have handled: "handleCreditPurchase net (JNum 100) b
      = b\<lparr> requests := requests b @ [?req], json_calls := Suc (json_calls b),
           opened := opened b @ [(JUndefined, ''_blank'')],
           alerts := alerts b @ [''You'' @ [CHR 0x27] @ ''ll receive 120 credits after payment!''],
           localStorage := storage_set (localStorage b) ''stripe_session_id'' ''undefined'' \<rparr>"
    by (simp add: handleCreditPurchase_def credit_try_def call obj_get_def credit_checkout_def
        window_open_def localStorage_setItem_def alert_def show_int_def show_nat_120)
  show "alerts (handleCreditPurchase net (JNum 100) b)
      = alerts b @ [''You'' @ [CHR 0x27] @ ''ll receive 120 credits after payment!'']"
    unfolding handled by simp
qed

text \<open>
  The claim on a freshly loaded page, the server answering with status 200.
\<close>

theorem C6_credit_purchase_witness:
  \<open>request_headers (constructor None None) [] = Inr [(''Content-Type'', JStr ''application/json'')]
   \<and> requests (snd (purchaseCredits
       (replies \<lparr> status = 200, json_body = Some (JObj [(''success'', JBool True), (''total_credits'', JNum 120)]) \<rparr>)
       (constructor None None) (JNum 100) (page_load [] [])))
     = [(''http://localhost:8000/credits/purchase'',
         [(''method'', JStr ''POST''), (''body'', JStr ''{"amount":100}''),
          (''headers'', JObj [(''Content-Type'', JStr ''application/json'')])])]
   \<and> (200::nat) \<le> 200 \<and> (200::nat) \<le> 299
   \<and> alerts (handleCreditPurchase
       (replies \<lparr> status = 200, json_body = Some (JObj [(''success'', JBool True), (''total_credits'', JNum 120)]) \<rparr>)
       (JNum 100) (page_load [] []))
     = [''You'' @ [CHR 0x27] @ ''ll receive 120 credits after payment!'']\<close>
proof -
  let ?r = "\<lparr> status = 200, json_body = Some (JObj [(''success'', JBool True), (''total_credits'', JNum 120)]) \<rparr>"
  let ?hs = "[(''Content-Type'', JStr ''application/json'')]"
  note claim = C6_credit_purchase [of "constructor None None" "replies ?r" "page_load [] []"]
  have service: "paymentService (page_load [] []) = constructor None None"
    by (simp add: page_load_def)
  have h: \<open>request_headers (paymentService (page_load [] [])) [] = Inr ?hs
           \<and> replies ?r (requests (page_load [] []))
                (apiBaseUrl (paymentService (page_load [] [])) @ ''/credits/purchase'',
                 [(''method'', JStr ''POST''), (''body'', JStr ''{"amount":100}''),
                  (''headers'', JObj ?hs)]) = Responded ?r
           \<and> 200 \<le> status ?r \<and> status ?r \<le> 299
           \<and> json_body ?r = Some (JObj [(''success'', JBool True), (''total_credits'', JNum 120)])\<close>
    by (simp add: replies_def service request_headers_default)
  have base: "apiBaseUrl (constructor None None) = ''http://localhost:8000''"
    by (simp add: constructor_def)
  have empty: "requests (page_load [] []) = []" "alerts (page_load [] []) = []"
    by (simp_all add: page_load_def)
  have w1: \<open>requests (snd (purchaseCredits (replies ?r) (constructor None None) (JNum 100)
        (page_load [] [])))
     = [(''http://localhost:8000/credits/purchase'',
         [(''method'', JStr ''POST''), (''body'', JStr ''{"amount":100}''), (''headers'', JObj ?hs)])]\<close>
    using claim [THEN conjunct1, rule_format, OF request_headers_default] by (simp add: base empty)
  have w2: "alerts (handleCreditPurchase (replies ?r) (JNum 100) (page_load [] []))
      = [''You'' @ [CHR 0x27] @ ''ll receive 120 credits after payment!'']"
    using claim [THEN conjunct2, rule_format, OF h] by (simp add: empty)
  have n1: "(200::nat) \<le> 200" and n2: "(200::nat) \<le> 299" by simp_all
  show ?thesis
    by (intro conjI request_headers_default w1 n1 n2 w2)
qed

section \<open>The success page\<close>

lemma show_status_frame:
  "requests (snd (show_status tier credits b)) = requests b"
  "localStorage (snd (show_status tier credits b)) = localStorage b"
  by (simp_all add: show_status_def console_log_def Let_def split: sum.splits)

lemma show_status_outcome: "fst (show_status tier credits b) = fst (show_status tier credits b')"
  by (simp add: show_status_def Let_def split: sum.splits)

lemma updateUserInterface_frame:
  "requests (snd (updateUserInterface v b)) = requests b"
  "localStorage (snd (updateUserInterface v b)) = localStorage b"
  by (simp_all add: updateUserInterface_def show_status_frame split: sum.splits)

lemma updateUserInterface_outcome: "fst (updateUserInterface v b) = fst (updateUserInterface v b')"
  using show_status_outcome [of _ _ b b']
  by (simp add: updateUserInterface_def split: sum.splits)

lemma updateUserInterface_status_shape:
  "obj_get kvs ''tier'' = Some (JStr tier) \<Longrightarrow> obj_get kvs ''credits'' = Some (JNum n) \<Longrightarrow>
   fst (updateUserInterface (JObj kvs) b) = None"
  by (simp add: updateUserInterface_def show_status_def Let_def split: option.splits)

lemma updateUserInterface_null: "fst (updateUserInterface JNull b) = Some TypeError"
  by (simp add: updateUserInterface_def)

lemma updateUserInterface_tier_throws:
  "obj_get kvs ''success'' = Some success \<Longrightarrow> truthy success \<Longrightarrow>
   obj_get kvs ''tier'' = Some (JObj tier_kvs) \<Longrightarrow> ''toString'' \<in> fst ` set tier_kvs \<Longrightarrow>
   fst (updateUserInterface (JObj kvs) b) = Some TypeError"
  by (simp add: updateUserInterface_def show_status_def split: option.splits)

lemma handlePaymentSuccess_no_session:
  "map_of (location_search b) ''session_id'' = None \<or> map_of (location_search b) ''session_id'' = Some []
   \<Longrightarrow> handlePaymentSuccess net b = b"
  by (auto simp: handlePaymentSuccess_def urlParams_get_def)

lemma success_try_requests:
  assumes out: "outgoing (paymentService b) ''/subscriptions/status'' [] = Inr req"
  shows "requests (snd (success_try net b)) = requests b @ [req]"
proof -
  obtain res b1 where call: "getSubscriptionStatus net (paymentService b) b = (res, b1)"
    by (cases "getSubscriptionStatus net (paymentService b) b")
  then have "b1 = snd (makeAuthenticatedRequest net (paymentService b) ''/subscriptions/status'' [] b)"
    by (simp add: getSubscriptionStatus_def)
  then have b1: "requests b1 = requests b @ [req]"
    using requests_makeAuthenticatedRequest [OF out, of net b] by simp
  show ?thesis
  proof (cases res)
    case (Inl e)
    then show ?thesis by (simp add: success_try_def call b1)
  next
    case (Inr v)
    obtain e b2 where ui:
      "updateUserInterface v (console_log [Val (JStr ''Updated user status:''), Val v] b1) = (e, b2)"
      by (cases "updateUserInterface v (console_log [Val (JStr ''Updated user status:''), Val v] b1)")
    then have "b2 = snd (updateUserInterface v (console_log [Val (JStr ''Updated user status:''), Val v] b1))"
      by (simp only: snd_conv)
    then have "requests b2 = requests b1"
      by (simp add: updateUserInterface_frame(1) console_log_def)
    then show ?thesis
      by (cases e) (simp_all add: success_try_def call Inr ui b1 localStorage_removeItem_def)
  qed
qed

lemma success_try_failed:
  assumes "fst (getSubscriptionStatus net (paymentService b) b) = Inl e"
  shows "fst (success_try net b) = Some e"
    and "localStorage (snd (success_try net b)) = localStorage b"
    and "console (snd (success_try net b)) = console b"
proof -
  obtain b1 where call: "getSubscriptionStatus net (paymentService b) b = (Inl e, b1)"
    using assms by (cases "getSubscriptionStatus net (paymentService b) b") simp
  have "b1 = snd (makeAuthenticatedRequest net (paymentService b) ''/subscriptions/status'' [] b)"
    using call by (simp add: getSubscriptionStatus_def)
  then have frame: "localStorage b1 = localStorage b" "console b1 = console b"
    by (simp_all add: makeAuthenticatedRequest_keeps)
  show "fst (success_try net b) = Some e"
    by (simp add: success_try_def call)
  show "localStorage (snd (success_try net b)) = localStorage b"
    by (simp add: success_try_def call frame)
  show "console (snd (success_try net b)) = console b"
    by (simp add: success_try_def call frame)
qed

lemma success_try_answered:
  assumes out: "outgoing (paymentService b) ''/subscriptions/status'' [] = Inr req"
    and resp: "net (requests b) req = Responded r" and okr: "ok r" and body: "json_body r = Some v"
  shows "fst (success_try net b) = fst (updateUserInterface v b)"
    and "fst (updateUserInterface v b) = None \<Longrightarrow>
         localStorage (snd (success_try net b))
           = filter (\<lambda>kv. fst kv \<noteq> ''stripe_session_id'') (localStorage b)"
    and "fst (updateUserInterface v b) = Some e \<Longrightarrow>
         localStorage (snd (success_try net b)) = localStorage b"
proof -
  let ?b1 = "b\<lparr> requests := requests b @ [req], json_calls := Suc (json_calls b) \<rparr>"
  let ?b1' = "console_log [Val (JStr ''Updated user status:''), Val v] ?b1"
  have call: "getSubscriptionStatus net (paymentService b) b = (Inr v, ?b1)"
    unfolding getSubscriptionStatus_def using out resp okr body by (rule makeAuthenticatedRequest_ok)
  obtain res b2 where ui: "updateUserInterface v ?b1' = (res, b2)"
    by (cases "updateUserInterface v ?b1'")
  then have res: "res = fst (updateUserInterface v ?b1')" and b2: "b2 = snd (updateUserInterface v ?b1')"
    by simp_all
  have same: "res = fst (updateUserInterface v b)"
    unfolding res by (rule updateUserInterface_outcome)
  have "localStorage b2 = localStorage ?b1'"
    unfolding b2 by (rule updateUserInterface_frame(2))
  then have ls: "localStorage b2 = localStorage b"
    by (simp add: console_log_def)
  show "fst (success_try net b) = fst (updateUserInterface v b)"
    unfolding same [symmetric] by (cases res) (simp_all add: success_try_def call ui)
  {
    assume "fst (updateUserInterface v b) = None"
    with same have "res = None" by simp
    then show "localStorage (snd (success_try net b))
           = filter (\<lambda>kv. fst kv \<noteq> ''stripe_session_id'') (localStorage b)"
      by (simp add: success_try_def call ui localStorage_removeItem_def ls)
  }
  {
    assume "fst (updateUserInterface v b) = Some e"
    with same have "res = Some e" by simp
    then show "localStorage (snd (success_try net b)) = localStorage b"
      by (simp add: success_try_def call ui ls)
  }
qed

text \<open>
  Claim C7, as stated, fails. A \<^verbatim>\<open>session_id\<close> parameter that is present with an empty
  value does not pass the test of line 148: nothing is fetched and the stored key stays.
  With a non-empty parameter, when the status request fails (here with status 500) the
  \<^verbatim>\<open>catch\<close> block is entered before line 158, and the stored key stays. And when the
  request succeeds with a body whose \<^verbatim>\<open>tier\<close> has no string conversion, line 171 throws
  inside the \<^verbatim>\<open>try\<close> block, and the stored key stays as well.
\<close>

theorem C7_counterexample:
  "map_of (location_search (page_load [(''session_id'', '''')] [(''stripe_session_id'', ''cs_1'')])) ''session_id''
     = Some ''''
   \<and> handlePaymentSuccess
         (replies \<lparr> status = 200, json_body = Some (JObj [(''success'', JBool True), (''tier'', JStr ''free''), (''credits'', JNum 3)]) \<rparr>)
         (page_load [(''session_id'', '''')] [(''stripe_session_id'', ''cs_1'')])
       = page_load [(''session_id'', '''')] [(''stripe_session_id'', ''cs_1'')]
   \<and> map_of (location_search (page_load [(''session_id'', ''cs_1'')] [(''stripe_session_id'', ''cs_1'')])) ''session_id''
     = Some ''cs_1''
   \<and> localStorage_getItem
         (handlePaymentSuccess (replies \<lparr> status = 500, json_body = None \<rparr>)
            (page_load [(''session_id'', ''cs_1'')] [(''stripe_session_id'', ''cs_1'')]))
         ''stripe_session_id''
       = Some ''cs_1''
   \<and> localStorage_getItem
         (handlePaymentSuccess
            (replies \<lparr> status = 200, json_body = Some (JObj [(''success'', JBool True), (''tier'', JObj [(''toString'', JNum 1)]), (''credits'', JNum 5)]) \<rparr>)
            (page_load [(''session_id'', ''cs_1'')] [(''stripe_session_id'', ''cs_1'')]))
         ''stripe_session_id''
       = Some ''cs_1''"
  by (simp add: updateUserInterface_def show_status_def obj_get_def console_log_def handlePaymentSuccess_def urlParams_get_def page_load_def success_try_def
      getSubscriptionStatus_def makeAuthenticatedRequest_def outgoing_def request_headers_def
      constructor_def replies_def ok_def Let_def console_error_def localStorage_getItem_def)

text \<open>
  Claim C7, amended. When the page URL has no \<^verbatim>\<open>session_id\<close> parameter, or an empty one,
  \<^verbatim>\<open>handlePaymentSuccess\<close> does nothing. When it has a non-empty one, the handler issues
  the request of \<^verbatim>\<open>getSubscriptionStatus\<close>, if the service can build it. If the request
  is answered with a success status and a JSON body on which \<^verbatim>\<open>updateUserInterface\<close> does
  not throw, as on every object whose \<^verbatim>\<open>tier\<close> is a string and whose \<^verbatim>\<open>credits\<close> is a
  number, the handler removes \<^verbatim>\<open>stripe_session_id\<close> from local storage and leaves the
  other keys. If \<^verbatim>\<open>updateUserInterface\<close> throws on the body, as it does on \<^verbatim>\<open>null\<close> and on
  an object with a truthy \<^verbatim>\<open>success\<close> whose \<^verbatim>\<open>tier\<close> is an object with an own \<^verbatim>\<open>toString\<close>
  property, or the request fails, local storage is unchanged; a failed request's error is
  written to the console.
\<close>

theorem C7_payment_success:
  "(map_of (location_search b) ''session_id'' = None \<or> map_of (location_search b) ''session_id'' = Some []
      \<longrightarrow> handlePaymentSuccess net b = b)
   \<and> (\<forall>sid. map_of (location_search b) ''session_id'' = Some sid \<and> sid \<noteq> [] \<longrightarrow>
         (\<forall>req. outgoing (paymentService b) ''/subscriptions/status'' [] = Inr req \<longrightarrow>
            requests (handlePaymentSuccess net b) = requests b @ [req])
         \<and> (\<forall>req r v. outgoing (paymentService b) ''/subscriptions/status'' [] = Inr req
                   \<and> net (requests b) req = Responded r
                   \<and> 200 \<le> status r \<and> status r \<le> 299
                   \<and> json_body r = Some v \<and> fst (updateUserInterface v b) = None \<longrightarrow>
               localStorage_getItem (handlePaymentSuccess net b) ''stripe_session_id'' = None
               \<and> (\<forall>k. k \<noteq> ''stripe_session_id'' \<longrightarrow>
                     localStorage_getItem (handlePaymentSuccess net b) k = localStorage_getItem b k))
         \<and> (\<forall>req r kvs tier n. outgoing (paymentService b) ''/subscriptions/status'' [] = Inr req
                   \<and> net (requests b) req = Responded r
                   \<and> 200 \<le> status r \<and> status r \<le> 299
                   \<and> json_body r = Some (JObj kvs)
                   \<and> obj_get kvs ''tier'' = Some (JStr tier)
                   \<and> obj_get kvs ''credits'' = Some (JNum n) \<longrightarrow>
               localStorage_getItem (handlePaymentSuccess net b) ''stripe_session_id'' = None)
         \<and> (\<forall>req r v e. outgoing (paymentService b) ''/subscriptions/status'' [] = Inr req
                   \<and> net (requests b) req = Responded r
                   \<and> 200 \<le> status r \<and> status r \<le> 299
                   \<and> json_body r = Some v \<and> fst (updateUserInterface v b) = Some e \<longrightarrow>
               localStorage (handlePaymentSuccess net b) = localStorage b)
         \<and> (\<forall>e. fst (getSubscriptionStatus net (paymentService b) b) = Inl e \<longrightarrow>
               localStorage (handlePaymentSuccess net b) = localStorage b
               \<and> console (handlePaymentSuccess net b)
                   = console b @ [ConsoleError [Val (JStr ''Failed to get updated user status:''), Err e]])
         \<and> (\<forall>req r. outgoing (paymentService b) ''/subscriptions/status'' [] = Inr req
                   \<and> net (requests b) req = Responded r
                   \<and> 200 \<le> status r \<and> status r \<le> 299
                   \<and> json_body r = Some JNull \<longrightarrow>
               localStorage (handlePaymentSuccess net b) = localStorage b)
         \<and> (\<forall>req r kvs success tier_kvs.
                   outgoing (paymentService b) ''/subscriptions/status'' [] = Inr req
                   \<and> net (requests b) req = Responded r
                   \<and> 200 \<le> status r \<and> status r \<le> 299
                   \<and> json_body r = Some (JObj kvs)
                   \<and> obj_get kvs ''success'' = Some success \<and> truthy success
                   \<and> obj_get kvs ''tier'' = Some (JObj tier_kvs)
                   \<and> ''toString'' \<in> fst ` set tier_kvs \<longrightarrow>
               localStorage (handlePaymentSuccess net b) = localStorage b))"
proof (intro conjI allI impI)
  assume "map_of (location_search b) ''session_id'' = None \<or> map_of (location_search b) ''session_id'' = Some []"
  then show "handlePaymentSuccess net b = b"
    by (rule handlePaymentSuccess_no_session)
next
  fix sid
  assume "map_of (location_search b) ''session_id'' = Some sid \<and> sid \<noteq> []"
  then have run: "handlePaymentSuccess net b =
      (case success_try net b of
         (None, b1) \<Rightarrow> b1
       | (Some error, b1) \<Rightarrow>
           console_error [Val (JStr ''Failed to get updated user status:''), Err error] b1)"
    by (simp add: handlePaymentSuccess_def urlParams_get_def)
  obtain res b1 where st: "success_try net b = (res, b1)"
    by (cases "success_try net b")
  then have b1: "b1 = snd (success_try net b)" and res: "res = fst (success_try net b)"
    by simp_all
  have kept: "localStorage (handlePaymentSuccess net b) = localStorage b1"
    by (cases res) (simp_all add: run st console_error_def)
  have removed: "localStorage_getItem (handlePaymentSuccess net b) ''stripe_session_id'' = None
        \<and> (\<forall>k. k \<noteq> ''stripe_session_id'' \<longrightarrow>
              localStorage_getItem (handlePaymentSuccess net b) k = localStorage_getItem b k)"
    if out: "outgoing (paymentService b) ''/subscriptions/status'' [] = Inr req"
      and resp: "net (requests b) req = Responded r" and okr: "ok r" and body: "json_body r = Some v"
      and ui: "fst (updateUserInterface v b) = None" for req r v
  proof -
    have "localStorage b1 = filter (\<lambda>kv. fst kv \<noteq> ''stripe_session_id'') (localStorage b)"
      unfolding b1 using out resp okr body ui by (rule success_try_answered(2))
    with kept show ?thesis
      by (simp add: localStorage_getItem_def map_of_storage_remove)
  qed
  {
    fix req
    assume "outgoing (paymentService b) ''/subscriptions/status'' [] = Inr req"
    then have "requests b1 = requests b @ [req]"
      unfolding b1 by (rule success_try_requests)
    then show "requests (handlePaymentSuccess net b) = requests b @ [req]"
      by (cases res) (simp_all add: run st console_error_def)
  }
  {
    fix req r v
    assume a: "outgoing (paymentService b) ''/subscriptions/status'' [] = Inr req
                   \<and> net (requests b) req = Responded r
                   \<and> 200 \<le> status r \<and> status r \<le> 299
                   \<and> json_body r = Some v \<and> fst (updateUserInterface v b) = None"
    then have okr: "ok r" by (simp add: ok_def)
    have both: "localStorage_getItem (handlePaymentSuccess net b) ''stripe_session_id'' = None
        \<and> (\<forall>k. k \<noteq> ''stripe_session_id'' \<longrightarrow>
              localStorage_getItem (handlePaymentSuccess net b) k = localStorage_getItem b k)"
      using a okr by (intro removed [of req r v]) simp_all
    from both show "localStorage_getItem (handlePaymentSuccess net b) ''stripe_session_id'' = None"
      by (rule conjunct1)
    fix k :: string
    assume "k \<noteq> ''stripe_session_id''"
    with both show "localStorage_getItem (handlePaymentSuccess net b) k = localStorage_getItem b k"
      by simp
  }
  {
    fix req r kvs tier n
    assume a: "outgoing (paymentService b) ''/subscriptions/status'' [] = Inr req
                   \<and> net (requests b) req = Responded r
                   \<and> 200 \<le> status r \<and> status r \<le> 299
                   \<and> json_body r = Some (JObj kvs)
                   \<and> obj_get kvs ''tier'' = Some (JStr tier)
                   \<and> obj_get kvs ''credits'' = Some (JNum n)"
    then have okr: "ok r" by (simp add: ok_def)
    have ui: "fst (updateUserInterface (JObj kvs) b) = None"
      using a by (intro updateUserInterface_status_shape [of kvs tier n]) simp_all
    have "localStorage_getItem (handlePaymentSuccess net b) ''stripe_session_id'' = None
        \<and> (\<forall>k. k \<noteq> ''stripe_session_id'' \<longrightarrow>
              localStorage_getItem (handlePaymentSuccess net b) k = localStorage_getItem b k)"
      using a okr ui by (intro removed [of req r "JObj kvs"]) simp_all
    then show "localStorage_getItem (handlePaymentSuccess net b) ''stripe_session_id'' = None"
      by (rule conjunct1)
  }
  {
    fix req r v e
    assume a: "outgoing (paymentService b) ''/subscriptions/status'' [] = Inr req
                   \<and> net (requests b) req = Responded r
                   \<and> 200 \<le> status r \<and> status r \<le> 299
                   \<and> json_body r = Some v \<and> fst (updateUserInterface v b) = Some e"
    then have okr: "ok r" by (simp add: ok_def)
    have "localStorage b1 = localStorage b"
      unfolding b1 using a okr by (intro success_try_answered(3) [of b req net r v e]) simp_all
    with kept show "localStorage (handlePaymentSuccess net b) = localStorage b"
      by simp
  }
  {
    fix e
    assume a: "fst (getSubscriptionStatus net (paymentService b) b) = Inl e"
    have "res = Some e"
      unfolding res using a by (rule success_try_failed(1))
    moreover have "localStorage b1 = localStorage b" "console b1 = console b"
      unfolding b1 using a by (rule success_try_failed(2), rule success_try_failed(3))
    ultimately show "localStorage (handlePaymentSuccess net b) = localStorage b"
      and "console (handlePaymentSuccess net b)
             = console b @ [ConsoleError [Val (JStr ''Failed to get updated user status:''), Err e]]"
      by (simp_all add: run st console_error_def)
  }
  {
    fix req r
    assume a: "outgoing (paymentService b) ''/subscriptions/status'' [] = Inr req
                   \<and> net (requests b) req = Responded r
                   \<and> 200 \<le> status r \<and> status r \<le> 299
                   \<and> json_body r = Some JNull"
    then have okr: "ok r" by (simp add: ok_def)
    have "localStorage b1 = localStorage b"
      unfolding b1 using a okr updateUserInterface_null [of b]
      by (intro success_try_answered(3) [of b req net r JNull TypeError]) simp_all
    with kept show "localStorage (handlePaymentSuccess net b) = localStorage b"
      by simp
  }
  {
    fix req r kvs success tier_kvs
    assume a: "outgoing (paymentService b) ''/subscriptions/status'' [] = Inr req
                   \<and> net (requests b) req = Responded r
                   \<and> 200 \<le> status r \<and> status r \<le> 299
                   \<and> json_body r = Some (JObj kvs)
                   \<and> obj_get kvs ''success'' = Some success \<and> truthy success
                   \<and> obj_get kvs ''tier'' = Some (JObj tier_kvs)
                   \<and> ''toString'' \<in> fst ` set tier_kvs"
    then have okr: "ok r" by (simp add: ok_def)
    have ui: "fst (updateUserInterface (JObj kvs) b) = Some TypeError"
      using a by (intro updateUserInterface_tier_throws [of kvs success tier_kvs]) simp_all
    have "localStorage b1 = localStorage b"
      unfolding b1 using a okr ui
      by (intro success_try_answered(3) [of b req net r "JObj kvs" TypeError]) simp_all
    with kept show "localStorage (handlePaymentSuccess net b) = localStorage b"
      by simp
  }
qed

text \<open>
  The amended claim on a page without the parameter, and on the success page with a
  server that answers, one that answers with a tier that has no string conversion, one
  that fails, and one that answers \<^verbatim>\<open>null\<close>.
\<close>

theorem C7_payment_success_witness:
  "map_of (location_search (page_load [] [(''stripe_session_id'', ''cs_1'')])) ''session_id'' = None
   \<and> handlePaymentSuccess (replies \<lparr> status = 200, json_body = Some (JObj [(''success'', JBool True), (''tier'', JStr ''free''), (''credits'', JNum (- 1))]) \<rparr>)
         (page_load [] [(''stripe_session_id'', ''cs_1'')])
       = page_load [] [(''stripe_session_id'', ''cs_1'')]
   \<and> map_of (location_search (page_load [(''session_id'', ''cs_1'')] [(''stripe_session_id'', ''cs_1''), (''theme'', ''dark'')])) ''session_id''
       = Some ''cs_1''
   \<and> ''cs_1'' \<noteq> []
   \<and> outgoing (paymentService (page_load [(''session_id'', ''cs_1'')] [(''stripe_session_id'', ''cs_1''), (''theme'', ''dark'')]))
         ''/subscriptions/status'' []
       = Inr (''http://localhost:8000/subscriptions/status'',
              [(''headers'', JObj [(''Content-Type'', JStr ''application/json'')])])
   \<and> requests (handlePaymentSuccess (replies \<lparr> status = 200, json_body = Some (JObj [(''success'', JBool True), (''tier'', JStr ''free''), (''credits'', JNum (- 1))]) \<rparr>)
         (page_load [(''session_id'', ''cs_1'')] [(''stripe_session_id'', ''cs_1''), (''theme'', ''dark'')]))
       = [(''http://localhost:8000/subscriptions/status'',
           [(''headers'', JObj [(''Content-Type'', JStr ''application/json'')])])]
   \<and> fst (updateUserInterface (JObj [(''success'', JBool True), (''tier'', JStr ''free''), (''credits'', JNum (- 1))])
         (page_load [(''session_id'', ''cs_1'')] [(''stripe_session_id'', ''cs_1''), (''theme'', ''dark'')]))
       = None
   \<and> localStorage_getItem
         (handlePaymentSuccess (replies \<lparr> status = 200, json_body = Some (JObj [(''success'', JBool True), (''tier'', JStr ''free''), (''credits'', JNum (- 1))]) \<rparr>)
           (page_load [(''session_id'', ''cs_1'')] [(''stripe_session_id'', ''cs_1''), (''theme'', ''dark'')]))
         ''stripe_session_id'' = None
   \<and> ''theme'' \<noteq> ''stripe_session_id''
   \<and> localStorage_getItem
         (handlePaymentSuccess (replies \<lparr> status = 200, json_body = Some (JObj [(''success'', JBool True), (''tier'', JStr ''free''), (''credits'', JNum (- 1))]) \<rparr>)
           (page_load [(''session_id'', ''cs_1'')] [(''stripe_session_id'', ''cs_1''), (''theme'', ''dark'')]))
         ''theme'' = Some ''dark''
   \<and> fst (updateUserInterface (JObj [(''success'', JBool True), (''tier'', JObj [(''toString'', JNum 1)]), (''credits'', JNum 5)])
         (page_load [(''session_id'', ''cs_1'')] [(''stripe_session_id'', ''cs_1''), (''theme'', ''dark'')]))
       = Some TypeError
   \<and> localStorage
         (handlePaymentSuccess (replies \<lparr> status = 200, json_body = Some (JObj [(''success'', JBool True), (''tier'', JObj [(''toString'', JNum 1)]), (''credits'', JNum 5)]) \<rparr>)
           (page_load [(''session_id'', ''cs_1'')] [(''stripe_session_id'', ''cs_1''), (''theme'', ''dark'')]))
       = [(''stripe_session_id'', ''cs_1''), (''theme'', ''dark'')]
   \<and> fst (getSubscriptionStatus (replies \<lparr> status = 500, json_body = None \<rparr>)
         (paymentService (page_load [(''session_id'', ''cs_1'')] [(''stripe_session_id'', ''cs_1''), (''theme'', ''dark'')]))
         (page_load [(''session_id'', ''cs_1'')] [(''stripe_session_id'', ''cs_1''), (''theme'', ''dark'')]))
       = Inl (Error ''HTTP error! status: 500'')
   \<and> localStorage (handlePaymentSuccess (replies \<lparr> status = 500, json_body = None \<rparr>)
         (page_load [(''session_id'', ''cs_1'')] [(''stripe_session_id'', ''cs_1''), (''theme'', ''dark'')]))
       = [(''stripe_session_id'', ''cs_1''), (''theme'', ''dark'')]
   \<and> localStorage (handlePaymentSuccess (replies \<lparr> status = 200, json_body = Some JNull \<rparr>)
         (page_load [(''session_id'', ''cs_1'')] [(''stripe_session_id'', ''cs_1''), (''theme'', ''dark'')]))
       = [(''stripe_session_id'', ''cs_1''), (''theme'', ''dark'')]"
proof -
  let ?nul = "\<lparr> status = 200, json_body = Some JNull \<rparr>"
  let ?kvs = "[(''success'', JBool True), (''tier'', JStr ''free''), (''credits'', JNum (- 1))]"
  let ?v = "JObj ?kvs"
  let ?w = "JObj [(''success'', JBool True), (''tier'', JObj [(''toString'', JNum 1)]), (''credits'', JNum 5)]"
  let ?good = "\<lparr> status = 200, json_body = Some ?v \<rparr>"
  let ?odd = "\<lparr> status = 200, json_body = Some ?w \<rparr>"
  let ?bad = "\<lparr> status = 500, json_body = None \<rparr>"
  let ?home = "page_load [] [(''stripe_session_id'', ''cs_1'')]"
  let ?page = "page_load [(''session_id'', ''cs_1'')] [(''stripe_session_id'', ''cs_1''), (''theme'', ''dark'')]"
  let ?req = "(''http://localhost:8000/subscriptions/status'',
         [(''headers'', JObj [(''Content-Type'', JStr ''application/json'')])])"
  have service: "paymentService ?page = constructor None None"
    by (simp add: page_load_def)
  have fields: "requests ?page = []"
    "localStorage ?page = [(''stripe_session_id'', ''cs_1''), (''theme'', ''dark'')]"
    "localStorage_getItem ?page ''theme'' = Some ''dark''"
    by (simp_all add: page_load_def localStorage_getItem_def)
  have h0: "map_of (location_search ?home) ''session_id'' = None"
    by (simp add: page_load_def)
  have h1: "map_of (location_search ?page) ''session_id'' = Some ''cs_1'' \<and> ''cs_1'' \<noteq> []"
    by (simp add: page_load_def)
  have out: "outgoing (paymentService ?page) ''/subscriptions/status'' [] = Inr ?req"
    using outgoing_default_no_options [of "''/subscriptions/status''"] by (simp add: service)
  have ui_good: "fst (updateUserInterface ?v ?page) = None"
    by (simp add: updateUserInterface_def show_status_def obj_get_def)
  have ui_odd: "fst (updateUserInterface ?w ?page) = Some TypeError"
    by (simp add: updateUserInterface_def show_status_def obj_get_def)
  have h2: "outgoing (paymentService ?page) ''/subscriptions/status'' [] = Inr ?req
      \<and> replies ?good (requests ?page) ?req = Responded ?good
      \<and> 200 \<le> status ?good \<and> status ?good \<le> 299
      \<and> json_body ?good = Some ?v \<and> fst (updateUserInterface ?v ?page) = None"
    using out ui_good by (simp add: replies_def)
  have h2': "outgoing (paymentService ?page) ''/subscriptions/status'' [] = Inr ?req
      \<and> replies ?good (requests ?page) ?req = Responded ?good
      \<and> 200 \<le> status ?good \<and> status ?good \<le> 299
      \<and> json_body ?good = Some (JObj ?kvs)
      \<and> obj_get ?kvs ''tier'' = Some (JStr ''free'')
      \<and> obj_get ?kvs ''credits'' = Some (JNum (- 1))"
    using out by (simp add: replies_def obj_get_def)
  have h3: "outgoing (paymentService ?page) ''/subscriptions/status'' [] = Inr ?req
      \<and> replies ?odd (requests ?page) ?req = Responded ?odd
      \<and> 200 \<le> status ?odd \<and> status ?odd \<le> 299
      \<and> json_body ?odd = Some ?w \<and> fst (updateUserInterface ?w ?page) = Some TypeError"
    using out ui_odd by (simp add: replies_def)
  have h4: "fst (getSubscriptionStatus (replies ?bad) (paymentService ?page) ?page)
      = Inl (Error ''HTTP error! status: 500'')"
    by (simp add: getSubscriptionStatus_def makeAuthenticatedRequest_def out replies_def ok_def
        show_nat_500)
  have h5: "''theme'' \<noteq> ''stripe_session_id''"
    by simp
  have w0: "handlePaymentSuccess (replies ?good) ?home = ?home"
    using C7_payment_success [of ?home "replies ?good", THEN conjunct1] h0 by simp
  note good = C7_payment_success [of ?page "replies ?good", THEN conjunct2, rule_format, OF h1]
  note odd = C7_payment_success [of ?page "replies ?odd", THEN conjunct2, rule_format, OF h1]
  note bad = C7_payment_success [of ?page "replies ?bad", THEN conjunct2, rule_format, OF h1]
  have w1: "requests (handlePaymentSuccess (replies ?good) ?page) = [?req]"
    using good [THEN conjunct1, rule_format, OF out] by (simp add: fields)
  note removed = good [THEN conjunct2, THEN conjunct1, rule_format, OF h2]
  have w2: "localStorage_getItem (handlePaymentSuccess (replies ?good) ?page) ''stripe_session_id'' = None"
    by (rule removed [THEN conjunct1])
  have w2': "localStorage_getItem (handlePaymentSuccess (replies ?good) ?page) ''theme'' = Some ''dark''"
    using removed [THEN conjunct2, rule_format, OF h5] by (simp only: fields)
  have w2'': "localStorage_getItem (handlePaymentSuccess (replies ?good) ?page) ''stripe_session_id'' = None"
    by (rule good [THEN conjunct2, THEN conjunct2, THEN conjunct1, rule_format, OF h2'])
  have w3: "localStorage (handlePaymentSuccess (replies ?odd) ?page)
      = [(''stripe_session_id'', ''cs_1''), (''theme'', ''dark'')]"
    using odd [THEN conjunct2, THEN conjunct2, THEN conjunct2, THEN conjunct1, rule_format, OF h3]
    by (simp only: fields)
  have w4: "localStorage (handlePaymentSuccess (replies ?bad) ?page)
      = [(''stripe_session_id'', ''cs_1''), (''theme'', ''dark'')]"
    using bad [THEN conjunct2, THEN conjunct2, THEN conjunct2, THEN conjunct2, THEN conjunct1,
        rule_format, OF h4, THEN conjunct1]
    by (simp only: fields)
  note nul = C7_payment_success [of ?page "replies ?nul", THEN conjunct2, rule_format, OF h1]
  have h6: "outgoing (paymentService ?page) ''/subscriptions/status'' [] = Inr ?req
      \<and> replies ?nul (requests ?page) ?req = Responded ?nul
      \<and> 200 \<le> status ?nul \<and> status ?nul \<le> 299
      \<and> json_body ?nul = Some JNull"
    using out by (simp add: replies_def)
  have w5: "localStorage (handlePaymentSuccess (replies ?nul) ?page)
      = [(''stripe_session_id'', ''cs_1''), (''theme'', ''dark'')]"
    using nul [THEN conjunct2, THEN conjunct2, THEN conjunct2, THEN conjunct2, THEN conjunct2,
        THEN conjunct1, rule_format, OF h6]
    by (simp only: fields)
  have h7: "outgoing (paymentService ?page) ''/subscriptions/status'' [] = Inr ?req
      \<and> replies ?odd (requests ?page) ?req = Responded ?odd
      \<and> 200 \<le> status ?odd \<and> status ?odd \<le> 299
      \<and> json_body ?odd = Some (JObj [(''success'', JBool True),
            (''tier'', JObj [(''toString'', JNum 1)]), (''credits'', JNum 5)])
      \<and> obj_get [(''success'', JBool True), (''tier'', JObj [(''toString'', JNum 1)]),
            (''credits'', JNum 5)] ''success'' = Some (JBool True)
      \<and> truthy (JBool True)
      \<and> obj_get [(''success'', JBool True), (''tier'', JObj [(''toString'', JNum 1)]),
            (''credits'', JNum 5)] ''tier'' = Some (JObj [(''toString'', JNum 1)])
      \<and> ''toString'' \<in> fst ` set [(''toString'', JNum 1)]"
    using out by (simp add: replies_def obj_get_def)
  have w3': "localStorage (handlePaymentSuccess (replies ?odd) ?page)
      = [(''stripe_session_id'', ''cs_1''), (''theme'', ''dark'')]"
    using odd [THEN conjunct2, THEN conjunct2, THEN conjunct2, THEN conjunct2, THEN conjunct2,
        THEN conjunct2, rule_format, OF h7]
    by (simp only: fields)
  show ?thesis
    using w2'' w3' by (intro conjI h0 w0 h1 [THEN conjunct1] h1 [THEN conjunct2] out w1 ui_good w2 h5 w2'
        ui_odd w3 h4 w4 w5)
qed

section \<open>The startup script's command line\<close>

lemma split_fields_plain:
  "\<not> list_ex is_ifs cs \<Longrightarrow> split_fields cur cs = (if cur @ cs = [] then [] else [cur @ cs])"
  by (induction cs arbitrary: cur) auto

text \<open>
  Claim C9. \<^verbatim>\<open>start.sh\<close> reads \<^verbatim>\<open>PORT\<close>: when it is unset (or set to the empty string) the
  script exports 8000 and launches \<^verbatim>\<open>uvicorn main:app --host 0.0.0.0 --port 8000 --workers 1\<close>;
  when it is set to a port \<open>p\<close>, or any other non-empty word without blanks and pattern
  characters, the script launches the same command line with \<^verbatim>\<open>--port p\<close>: all
  interfaces, that port, one worker.
\<close>

theorem C9_start_sh:
  "(env ''PORT'' = None \<longrightarrow>
      start_sh glob env
        = (env(''PORT'' \<mapsto> ''8000''),
           [''uvicorn'', ''main:app'', ''--host'', ''0.0.0.0'', ''--port'', ''8000'', ''--workers'', ''1'']))
   \<and> (env ''PORT'' = Some [] \<longrightarrow>
      start_sh glob env
        = (env(''PORT'' \<mapsto> ''8000''),
           [''uvicorn'', ''main:app'', ''--host'', ''0.0.0.0'', ''--port'', ''8000'', ''--workers'', ''1'']))
   \<and> (\<forall>p. env ''PORT'' = Some p \<and> p \<noteq> [] \<and> \<not> list_ex is_ifs p \<and> \<not> list_ex is_pattern_char p \<longrightarrow>
         start_sh glob env
           = (env, [''uvicorn'', ''main:app'', ''--host'', ''0.0.0.0'', ''--port'', p, ''--workers'', ''1'']))"
proof (intro conjI allI impI)
  have dflt: "expand_unquoted glob ''8000'' = [''8000'']"
    by (simp add: expand_unquoted_def pathname_expand_def is_ifs_def is_pattern_char_def)
  {
    assume "env ''PORT'' = None"
    with dflt show "start_sh glob env
        = (env(''PORT'' \<mapsto> ''8000''),
           [''uvicorn'', ''main:app'', ''--host'', ''0.0.0.0'', ''--port'', ''8000'', ''--workers'', ''1''])"
      by (simp add: start_sh_def expand_default_def)
  }
  {
    assume "env ''PORT'' = Some []"
    with dflt show "start_sh glob env
        = (env(''PORT'' \<mapsto> ''8000''),
           [''uvicorn'', ''main:app'', ''--host'', ''0.0.0.0'', ''--port'', ''8000'', ''--workers'', ''1''])"
      by (simp add: start_sh_def expand_default_def)
  }
  fix p
  assume a: "env ''PORT'' = Some p \<and> p \<noteq> [] \<and> \<not> list_ex is_ifs p \<and> \<not> list_ex is_pattern_char p"
  then have "split_fields [] p = [p]"
    by (simp add: split_fields_plain)
  with a have "expand_unquoted glob p = [p]"
    by (simp add: expand_unquoted_def pathname_expand_def)
  moreover have "env(''PORT'' \<mapsto> p) = env"
    using a by (simp add: map_upd_triv)
  ultimately show "start_sh glob env
           = (env, [''uvicorn'', ''main:app'', ''--host'', ''0.0.0.0'', ''--port'', p, ''--workers'', ''1''])"
    using a by (simp add: start_sh_def expand_default_def)
qed

text \<open>
  The claim without \<^verbatim>\<open>PORT\<close>, with an empty \<^verbatim>\<open>PORT\<close> and with \<^verbatim>\<open>PORT=10000\<close>.
\<close>

theorem C9_start_sh_witness:
  "(Map.empty :: string \<rightharpoonup> string) ''PORT'' = None
   \<and> snd (start_sh (\<lambda>pattern. []) Map.empty)
       = [''uvicorn'', ''main:app'', ''--host'', ''0.0.0.0'', ''--port'', ''8000'', ''--workers'', ''1'']
   \<and> [''PORT'' \<mapsto> []] ''PORT'' = Some []
   \<and> snd (start_sh (\<lambda>pattern. []) [''PORT'' \<mapsto> []])
       = [''uvicorn'', ''main:app'', ''--host'', ''0.0.0.0'', ''--port'', ''8000'', ''--workers'', ''1'']
   \<and> [''PORT'' \<mapsto> ''10000''] ''PORT'' = Some ''10000''
   \<and> ''10000'' \<noteq> [] \<and> \<not> list_ex is_ifs ''10000'' \<and> \<not> list_ex is_pattern_char ''10000''
   \<and> snd (start_sh (\<lambda>pattern. []) [''PORT'' \<mapsto> ''10000''])
       = [''uvicorn'', ''main:app'', ''--host'', ''0.0.0.0'', ''--port'', ''10000'', ''--workers'', ''1'']"
proof -
  have h1: "(Map.empty :: string \<rightharpoonup> string) ''PORT'' = None" by simp
  have h2: "[''PORT'' \<mapsto> ''10000''] ''PORT'' = Some ''10000''
      \<and> ''10000'' \<noteq> [] \<and> \<not> list_ex is_ifs ''10000'' \<and> \<not> list_ex is_pattern_char ''10000''"
    by (simp add: is_ifs_def is_pattern_char_def)
  have h3: "[''PORT'' \<mapsto> ([] :: string)] ''PORT'' = Some []" by simp
  from C9_start_sh [of Map.empty "\<lambda>pattern. []"] h1
  have w1: "start_sh (\<lambda>pattern. []) Map.empty
        = (Map.empty(''PORT'' \<mapsto> ''8000''),
           [''uvicorn'', ''main:app'', ''--host'', ''0.0.0.0'', ''--port'', ''8000'', ''--workers'', ''1''])"
    by blast
  from C9_start_sh [of "[''PORT'' \<mapsto> ''10000'']" "\<lambda>pattern. []"] h2
  have w2: "start_sh (\<lambda>pattern. []) [''PORT'' \<mapsto> ''10000'']
        = ([''PORT'' \<mapsto> ''10000''],
           [''uvicorn'', ''main:app'', ''--host'', ''0.0.0.0'', ''--port'', ''10000'', ''--workers'', ''1''])"
    by blast
  from C9_start_sh [of "[''PORT'' \<mapsto> []]" "\<lambda>pattern. []"] h3
  have w3: "start_sh (\<lambda>pattern. []) [''PORT'' \<mapsto> []]
        = ([''PORT'' \<mapsto> []](''PORT'' \<mapsto> ''8000''),
           [''uvicorn'', ''main:app'', ''--host'', ''0.0.0.0'', ''--port'', ''8000'', ''--workers'', ''1''])"
    by blast
  show ?thesis
    using h1 h2 h3 by (simp only: w1 w2 w3 snd_conv) simp
qed

end
